theory Spec2Isabelle
  imports Main "HOL-Library.AList" "HOL-Library.Sublist"
begin

section \<open>Python values\<close>

text \<open>
  The emulator passes JSON documents around as Python values: request bodies, the
  configuration document, the presets list. A Python \<open>str\<close> is modelled by
  \<open>string\<close>, one \<open>char\<close> per code point (code points below 256); \<open>len\<close> is
  \<open>length\<close>. A \<open>dict\<close> is an association list in insertion order; \<open>None\<close> is
  \<open>JNull\<close>. A float is held as its \<open>repr\<close>, which is all the code looks at
  (its truth value and its printed form).
\<close>

datatype json =
    JNull
  | JBool bool
  | JInt int
  | JFloat string
  | JStr string
  | JList "json list"
  | JObj "(string \<times> json) list"

type_synonym pydict = "(string \<times> json) list"

text \<open>Python truthiness, as used by \<open>not x\<close>, \<open>if x\<close> and \<open>x or y\<close>.\<close>

fun truthy :: "json \<Rightarrow> bool" where
  "truthy JNull = False"
| "truthy (JBool b) = b"
| "truthy (JInt i) = (i \<noteq> 0)"
| "truthy (JFloat r) = (r \<noteq> ''0.0'' \<and> r \<noteq> ''-0.0'')"
| "truthy (JStr s) = (s \<noteq> [])"
| "truthy (JList xs) = (xs \<noteq> [])"
| "truthy (JObj kvs) = (kvs \<noteq> [])"

text \<open>\<open>d.get(k)\<close> and \<open>d.get(k, default)\<close>.\<close>

definition dict_get :: "pydict \<Rightarrow> string \<Rightarrow> json" where
  "dict_get d k = (case map_of d k of None \<Rightarrow> JNull | Some v \<Rightarrow> v)"

definition dict_get_default :: "pydict \<Rightarrow> string \<Rightarrow> json \<Rightarrow> json" where
  "dict_get_default d k dflt = (case map_of d k of None \<Rightarrow> dflt | Some v \<Rightarrow> v)"

text \<open>\<open>d[k] = v\<close>: overwrite in place, or append a new key.\<close>

definition dict_set :: "pydict \<Rightarrow> string \<Rightarrow> json \<Rightarrow> pydict" where
  "dict_set d k v = AList.update k v d"

text \<open>\<open>{**a, **b}\<close>: the keys of \<open>b\<close> are stored one after the other over a copy of \<open>a\<close>.\<close>

definition dict_merge :: "pydict \<Rightarrow> pydict \<Rightarrow> pydict" where
  "dict_merge a b = fold (\<lambda>(k, v) d. dict_set d k v) b a"

text \<open>\<open>type(x).__name__\<close>, which the interpreter puts into its error messages.\<close>

fun type_name :: "json \<Rightarrow> string" where
  "type_name JNull = ''NoneType''"
| "type_name (JBool b) = ''bool''"
| "type_name (JInt i) = ''int''"
| "type_name (JFloat r) = ''float''"
| "type_name (JStr s) = ''str''"
| "type_name (JList xs) = ''list''"
| "type_name (JObj kvs) = ''dict''"

subsection \<open>Strings\<close>

text \<open>\<open>t in s\<close> for strings: \<open>t\<close> occurs in \<open>s\<close> as a contiguous run.\<close>

fun str_in :: "string \<Rightarrow> string \<Rightarrow> bool" where
  "str_in t [] = (t = [])"
| "str_in t (c # cs) = (prefix t (c # cs) \<or> str_in t cs)"

text \<open>\<open>str.lower\<close> on code points below 256: A-Z and the Latin-1 capitals move by 32.\<close>

definition lower_char :: "char \<Rightarrow> char" where
  "lower_char c =
     (let n = (of_char c :: nat) in
      if (65 \<le> n \<and> n \<le> 90) \<or> (192 \<le> n \<and> n \<le> 222 \<and> n \<noteq> 215)
      then char_of (n + 32) else c)"

definition py_lower :: "string \<Rightarrow> string" where
  "py_lower s = map lower_char s"

text \<open>\<open>str.isspace\<close> per character, and \<open>s.strip()\<close> being empty.\<close>

definition is_space :: "char \<Rightarrow> bool" where
  "is_space c = ((of_char c :: nat) \<in> {9, 10, 11, 12, 13, 28, 29, 30, 31, 32, 133, 160})"

definition strip_is_empty :: "string \<Rightarrow> bool" where
  "strip_is_empty s = list_all is_space s"

text \<open>The decimal form of a non-negative integer, as \<open>str(n)\<close> and an f-string print it.\<close>

definition digit_char :: "nat \<Rightarrow> char" where
  "digit_char d = char_of (48 + d)"

fun show_nat :: "nat \<Rightarrow> string" where
  "show_nat n = (if n < 10 then [digit_char n] else show_nat (n div 10) @ [digit_char (n mod 10)])"

declare show_nat.simps [simp del]

definition show_int :: "int \<Rightarrow> string" where
  "show_int i = (if i < 0 then CHR ''-'' # show_nat (nat (- i)) else show_nat (nat i))"

section \<open>Failures\<close>

text \<open>
  An exception is a value. \<open>ValidationError\<close> is the adapter's own class with its
  \<open>status_code\<close> and \<open>type\<close>; every other exception is \<open>Error cls msg code\<close>: its class
  name, its \<open>str()\<close> and its \<open>code\<close> attribute (\<open>JNull\<close> when it has none).
\<close>

datatype exn =
    ValidationError string int string
  | Error string string json

fun str_of :: "exn \<Rightarrow> string" where
  "str_of (ValidationError msg sc ty) = msg"
| "str_of (Error cls msg code) = msg"

fun code_of :: "exn \<Rightarrow> json" where
  "code_of (ValidationError msg sc ty) = JNull"
| "code_of (Error cls msg code) = code"

definition attribute_error :: "json \<Rightarrow> string \<Rightarrow> exn" where
  "attribute_error v attr =
     Error ''AttributeError''
       ([CHR 0x27] @ type_name v @ [CHR 0x27] @ '' object has no attribute '' @ [CHR 0x27] @ attr @ [CHR 0x27])
       JNull"

section \<open>litellm_client: token estimate and error classification\<close>

text \<open>\<open>estimate_tokens\<close>: 0 for an empty or absent text, else \<open>ceil(len(text) / 4)\<close>.\<close>

definition estimate_tokens :: "string \<Rightarrow> int" where
  "estimate_tokens text = (if text = [] then 0 else (int (length text) + 3) div 4)"

definition network_codes :: "string list" where
  "network_codes = [''ECONNREFUSED'', ''ENOTFOUND'', ''ETIMEDOUT'', ''ECONNRESET'', ''ENETUNREACH'', ''EAI_AGAIN'']"

text \<open>\<open>any(term in msg for term in terms)\<close>\<close>

definition any_term_in :: "string list \<Rightarrow> string \<Rightarrow> bool" where
  "any_term_in terms msg = list_ex (\<lambda>t. str_in t msg) terms"

text \<open>\<open>code in network_codes\<close>, after \<open>code = getattr(error, "code", "") or ""\<close>.\<close>

definition code_in_network_codes :: "exn \<Rightarrow> bool" where
  "code_in_network_codes e =
     (let code = (if truthy (code_of e) then code_of e else JStr [])
      in case code of JStr c \<Rightarrow> c \<in> set network_codes | _ \<Rightarrow> False)"

definition classify_error :: "exn \<Rightarrow> int \<times> string" where
  "classify_error e =
     (let msg = py_lower (str_of e) in
      if code_in_network_codes e then (503, ''service_unavailable'')
      else if any_term_in [''network'', ''timeout'', ''connect'', ''offline'', ''unavailable'', ''empty response''] msg
        then (503, ''service_unavailable'')
      else if any_term_in [''auth'', ''token'', ''unauthorized'', ''api key''] msg
        then (401, ''authentication_error'')
      else if any_term_in [''permission'', ''forbidden''] msg
        then (403, ''permission_error'')
      else if any_term_in [''rate'', ''limit'', ''quota''] msg
        then (429, ''rate_limit_error'')
      else if any_term_in [''invalid'', ''bad request''] msg
        then (400, ''invalid_request_error'')
      else if str_in ''not found'' msg
        then (404, ''not_found_error'')
      else (500, ''internal_server_error''))"


text \<open>
  The classifier as the specification words it: rule 1 is the network codes or the
  network terms; rules 2 to 6 are term lists tried in the listed order, the first
  match giving the outcome; rule 7 is the default.
\<close>

definition network_terms :: "string list" where
  "network_terms = [''network'', ''timeout'', ''connect'', ''offline'', ''unavailable'', ''empty response'']"

definition message_rules :: "(string list \<times> (int \<times> string)) list" where
  "message_rules =
     [([''auth'', ''token'', ''unauthorized'', ''api key''], (401, ''authentication_error'')),
      ([''permission'', ''forbidden''], (403, ''permission_error'')),
      ([''rate'', ''limit'', ''quota''], (429, ''rate_limit_error'')),
      ([''invalid'', ''bad request''], (400, ''invalid_request_error'')),
      ([''not found''], (404, ''not_found_error''))]"

definition matches_network_rule :: "exn \<Rightarrow> bool" where
  "matches_network_rule e = (code_in_network_codes e \<or> any_term_in network_terms (py_lower (str_of e)))"

definition Classify :: "exn \<Rightarrow> int \<times> string" where
  "Classify e =
     (if matches_network_rule e then (503, ''service_unavailable'')
      else case find (\<lambda>(ts, out). any_term_in ts (py_lower (str_of e))) message_rules of
             Some (ts, out) \<Rightarrow> out
           | None \<Rightarrow> (500, ''internal_server_error''))"

section \<open>The process and its surroundings\<close>

text \<open>
  A file holds its modification time and what \<open>json.load\<close> makes of its bytes:
  a document, or a parse failure. \<open>open(path, "w")\<close> fails exactly when the path is
  not writable and then leaves the file as it was; a write that succeeds stamps the
  file with the file system's current time.
\<close>

datatype content = Garbage | Doc json

record disk_file =
  f_mtime :: int
  f_content :: content

text \<open>What the adapter hands to \<open>litellm.completion\<close>, and what comes back.\<close>

record completion_request =
  rq_model :: json
  rq_messages :: "json list"
  rq_api_key :: json
  rq_temperature :: json
  rq_max_tokens :: json

record backend_usage =
  bu_prompt_tokens :: "int option"
  bu_completion_tokens :: "int option"
  bu_total_tokens :: "int option"

text \<open>Each choice is its \<open>message\<close> (or \<open>None\<close>), a message its \<open>content\<close> (or \<open>None\<close>).\<close>

record model_response =
  mr_choices :: "string option option list"
  mr_usage :: "backend_usage option"

record usage =
  prompt_tokens :: int
  completion_tokens :: int
  total_tokens :: int

record health_success =
  hs_timestamp :: nat
  hs_provider :: json
  hs_model :: json
  hs_tokens :: usage

record health_error =
  he_timestamp :: nat
  he_message :: string
  he_requested_model :: json

text \<open>
  The module globals of \<open>config.py\<close>, \<open>litellm_client.py\<close> and \<open>logger.py\<close>, the three
  files, the environment, the clock, the random source and the external completion
  capability. \<open>store\<close> holds the Python list objects of the presets module by
  reference, since \<open>get_saved_configs\<close> hands out the cached list itself and its
  callers change it in place. \<open>completion_calls\<close> records every call of the
  completion capability.
\<close>

record world =
  config_file :: "disk_file option"
  config_writable :: bool
  models_file :: "disk_file option"
  models_writable :: bool
  presets_file :: "disk_file option"
  presets_writable :: bool
  fs_stamp :: int
  clock_ms :: nat
  entropy :: "nat \<Rightarrow> nat"
  rng_pos :: nat
  environ :: "string \<Rightarrow> string option"
  completion :: "completion_request \<Rightarrow> exn + model_response"
  completion_calls :: "completion_request list"
  cached_config :: json
  config_mtime :: "int option"
  cached_models :: json
  cached_saved_configs :: "nat option"
  store :: "nat \<Rightarrow> json list"
  next_ref :: nat
  emulator_active :: bool
  provider_online :: "json \<Rightarrow> bool option"
  config_getter_set :: bool
  last_successful_completion :: "health_success option"
  last_error :: "health_error option"
  py_repr :: "json \<Rightarrow> string"

section \<open>config.py\<close>

text \<open>\<open>random.choices(population, k=k)\<close>: \<open>k\<close> draws, each an element of the population.\<close>

definition random_choices :: "world \<Rightarrow> string \<Rightarrow> nat \<Rightarrow> string \<times> world" where
  "random_choices w population k =
     (map (\<lambda>i. population ! (entropy w (rng_pos w + i) mod length population)) [0..<k],
      w\<lparr>rng_pos := rng_pos w + k\<rparr>)"

definition ascii_lowercase_digits :: string where
  "ascii_lowercase_digits = ''abcdefghijklmnopqrstuvwxyz0123456789''"

definition generate_id :: "world \<Rightarrow> string \<times> world" where
  "generate_id w =
     (let (random_chars, w1) = random_choices w ascii_lowercase_digits 6
      in (''cfg-'' @ show_nat (clock_ms w1) @ ''-'' @ random_chars, w1))"

definition get_default_config :: json where
  "get_default_config =
     JObj [(''port'', JInt 11434),
           (''provider'', JStr ''openai''),
           (''model'', JStr ''gpt-4''),
           (''apiKeyEnvVar'', JStr ''OPENAI_API_KEY''),
           (''emulatorActive'', JBool False),
           (''lastConfig'', JNull),
           (''logging'', JObj [(''enabled'', JBool True),
                               (''logRequests'', JBool True),
                               (''logErrors'', JBool True)])]"

text \<open>
  \<open>get_config\<close>: every \<open>FileNotFoundError\<close> and \<open>JSONDecodeError\<close> of the body ends in
  the defaults. With a cached document the file is probed first; a probe that finds
  another modification time stores it before the file is read again.
\<close>

definition get_config :: "world \<Rightarrow> json \<times> world" where
  "get_config w =
     (case config_file w of
        None \<Rightarrow> (get_default_config, w)
      | Some f \<Rightarrow>
          if cached_config w \<noteq> JNull \<and> config_mtime w = Some (f_mtime f)
          then (cached_config w, w)
          else
            let w1 = (if cached_config w \<noteq> JNull then w\<lparr>config_mtime := Some (f_mtime f)\<rparr> else w)
            in (case f_content f of
                  Garbage \<Rightarrow> (get_default_config, w1)
                | Doc v \<Rightarrow> (v, w1\<lparr>cached_config := v, config_mtime := Some (f_mtime f)\<rparr>)))"

text \<open>
  \<open>update_config\<close>: the merge is outside the \<open>try\<close>, so a configuration that is not
  a mapping raises; a failed write returns \<open>False\<close> before the cache is assigned.
\<close>

definition update_config :: "world \<Rightarrow> pydict \<Rightarrow> (exn + bool) \<times> world" where
  "update_config w updates =
     (let (current, w1) = get_config w in
      case current of
        JObj d \<Rightarrow>
          let config = dict_merge d updates in
          if config_writable w1
          then (Inr True,
                w1\<lparr>config_file := Some \<lparr>f_mtime = fs_stamp w1, f_content = Doc (JObj config)\<rparr>,
                   cached_config := JObj config,
                   config_mtime := Some (fs_stamp w1)\<rparr>)
          else (Inr False, w1)
      | _ \<Rightarrow>
          (Inl (Error ''TypeError''
                  ([CHR 0x27] @ type_name current @ [CHR 0x27] @ '' object is not a mapping'') JNull),
           w1))"

definition is_emulator_active :: "world \<Rightarrow> bool" where
  "is_emulator_active w = emulator_active w"

definition start_emulator :: "world \<Rightarrow> string \<Rightarrow> string \<Rightarrow> string \<Rightarrow> (exn + bool) \<times> world" where
  "start_emulator w provider model api_key_env_var =
     (case update_config w
             [(''provider'', JStr provider),
              (''model'', JStr model),
              (''apiKeyEnvVar'', JStr api_key_env_var),
              (''emulatorActive'', JBool True),
              (''lastConfig'', JObj [(''provider'', JStr provider),
                                     (''model'', JStr model),
                                     (''apiKeyEnvVar'', JStr api_key_env_var)])] of
        (Inl e, w1) \<Rightarrow> (Inl e, w1)
      | (Inr success, w1) \<Rightarrow>
          (Inr success, if success then w1\<lparr>emulator_active := True\<rparr> else w1))"

definition stop_emulator :: "world \<Rightarrow> (exn + bool) \<times> world" where
  "stop_emulator w =
     (case update_config w [(''emulatorActive'', JBool False)] of
        (Inl e, w1) \<Rightarrow> (Inl e, w1)
      | (Inr success, w1) \<Rightarrow>
          (Inr success, if success then w1\<lparr>emulator_active := False\<rparr> else w1))"

subsection \<open>Models cache\<close>

definition empty_models_cache :: json where
  "empty_models_cache = JObj [(''models'', JList []), (''lastUpdated'', JNull)]"

fun is_list :: "json \<Rightarrow> bool" where
  "is_list (JList xs) = True"
| "is_list _ = False"

text \<open>
  \<open>get_models_cache\<close>: a cached document is returned at once; otherwise the file is
  read, and kept only when it is an object whose \<open>models\<close> entry is a list. Every
  exception of the read ends in the empty document.
\<close>

definition get_models_cache :: "world \<Rightarrow> json \<times> world" where
  "get_models_cache w =
     (if cached_models w \<noteq> JNull then (cached_models w, w)
      else case models_file w of
             None \<Rightarrow> (empty_models_cache, w)
           | Some f \<Rightarrow>
               (case f_content f of
                  Doc (JObj cache) \<Rightarrow>
                    if is_list (dict_get cache ''models'')
                    then (JObj cache, w\<lparr>cached_models := JObj cache\<rparr>)
                    else (empty_models_cache, w)
                | _ \<Rightarrow> (empty_models_cache, w)))"

definition save_models_cache :: "world \<Rightarrow> json list \<Rightarrow> bool \<times> world" where
  "save_models_cache w models =
     (let cache = JObj [(''lastUpdated'', JInt (int (clock_ms w))), (''models'', JList models)] in
      if models_writable w
      then (True, w\<lparr>models_file := Some \<lparr>f_mtime = fs_stamp w, f_content = Doc cache\<rparr>,
                     cached_models := cache\<rparr>)
      else (False, w))"

subsection \<open>Presets\<close>

text \<open>A new Python list object: the next free reference, holding \<open>xs\<close>.\<close>

definition new_list :: "world \<Rightarrow> json list \<Rightarrow> nat \<times> world" where
  "new_list w xs = (next_ref w, w\<lparr>store := (store w)(next_ref w := xs), next_ref := Suc (next_ref w)\<rparr>)"

text \<open>
  \<open>get_saved_configs\<close> returns a reference: the cached list itself when there is
  one, the list just loaded and cached when the file holds a list, and otherwise a
  new empty list that nothing else refers to.
\<close>

definition get_saved_configs :: "world \<Rightarrow> nat \<times> world" where
  "get_saved_configs w =
     (case cached_saved_configs w of
        Some r \<Rightarrow> (r, w)
      | None \<Rightarrow>
          (case presets_file w of
             None \<Rightarrow> new_list w []
           | Some f \<Rightarrow>
               (case f_content f of
                  Doc (JList configs) \<Rightarrow>
                    (let (r, w1) = new_list w configs in (r, w1\<lparr>cached_saved_configs := Some r\<rparr>))
                | _ \<Rightarrow> new_list w [])))"

definition save_saved_configs :: "world \<Rightarrow> nat \<Rightarrow> bool \<times> world" where
  "save_saved_configs w configs =
     (if presets_writable w
      then (True, w\<lparr>presets_file := Some \<lparr>f_mtime = fs_stamp w, f_content = Doc (JList (store w configs))\<rparr>,
                     cached_saved_configs := Some configs\<rparr>)
      else (False, w))"

text \<open>\<open>add_saved_config\<close>: the append changes the list object that \<open>configs\<close> refers to.\<close>

definition add_saved_config :: "world \<Rightarrow> string \<Rightarrow> string \<Rightarrow> string \<Rightarrow> string \<Rightarrow> pydict option \<times> world" where
  "add_saved_config w name provider model api_key_env_var =
     (let (configs, w1) = get_saved_configs w;
          (new_id, w2) = generate_id w1;
          new_config = [(''id'', JStr new_id),
                        (''name'', JStr name),
                        (''provider'', JStr provider),
                        (''model'', JStr model),
                        (''apiKeyEnvVar'', JStr api_key_env_var)];
          w3 = w2\<lparr>store := (store w2)(configs := store w2 configs @ [JObj new_config])\<rparr>;
          (ok, w4) = save_saved_configs w3 configs
      in (if ok then Some new_config else None, w4))"

text \<open>
  \<open>next((c for c in configs if c.get("id") == config_id), None)\<close>: the first match
  with its position; an entry that is not a dict raises when the search reaches it.
\<close>

fun find_by_id :: "json list \<Rightarrow> string \<Rightarrow> exn + (nat \<times> pydict) option" where
  "find_by_id [] config_id = Inr None"
| "find_by_id (c # cs) config_id =
     (case c of
        JObj d \<Rightarrow>
          if dict_get d ''id'' = JStr config_id then Inr (Some (0, d))
          else (case find_by_id cs config_id of
                  Inr (Some (i, d')) \<Rightarrow> Inr (Some (Suc i, d'))
                | r \<Rightarrow> r)
      | _ \<Rightarrow> Inl (attribute_error c ''get''))"


text \<open>\<open>if x:\<close> and \<open>if x is not None:\<close> on an \<open>Optional[str]\<close> argument.\<close>

fun opt_truthy :: "string option \<Rightarrow> bool" where
  "opt_truthy None = False"
| "opt_truthy (Some s) = (s \<noteq> [])"

definition update_saved_config ::
  "world \<Rightarrow> string \<Rightarrow> string option \<Rightarrow> string option \<Rightarrow> string option \<Rightarrow> string option \<Rightarrow> (exn + bool) \<times> world" where
  "update_saved_config w config_id new_name provider model api_key_env_var =
     (let (configs, w1) = get_saved_configs w in
      case find_by_id (store w1 configs) config_id of
        Inl e \<Rightarrow> (Inl e, w1)
      | Inr None \<Rightarrow> (Inr False, w1)
      | Inr (Some (i, config)) \<Rightarrow>
          let c1 = (if opt_truthy new_name then dict_set config ''name'' (JStr (the new_name)) else config);
              c2 = (if opt_truthy provider then dict_set c1 ''provider'' (JStr (the provider)) else c1);
              c3 = (if opt_truthy model then dict_set c2 ''model'' (JStr (the model)) else c2);
              c4 = (case api_key_env_var of
                      Some v \<Rightarrow> dict_set c3 ''apiKeyEnvVar'' (JStr v)
                    | None \<Rightarrow> c3);
              w2 = w1\<lparr>store := (store w1)(configs := (store w1 configs)[i := JObj c4])\<rparr>;
              (ok, w3) = save_saved_configs w2 configs
          in (Inr ok, w3))"


definition get_saved_config_by_id :: "world \<Rightarrow> string \<Rightarrow> (exn + pydict option) \<times> world" where
  "get_saved_config_by_id w config_id =
     (let (configs, w1) = get_saved_configs w in
      case find_by_id (store w1 configs) config_id of
        Inl e \<Rightarrow> (Inl e, w1)
      | Inr None \<Rightarrow> (Inr None, w1)
      | Inr (Some (i, c)) \<Rightarrow> (Inr (Some c), w1))"

text \<open>What a caller of \<open>get_saved_configs\<close> reads through the reference it gets.\<close>

definition list_presets :: "world \<Rightarrow> json list \<times> world" where
  "list_presets w = (let (configs, w1) = get_saved_configs w in (store w1 configs, w1))"

section \<open>logger.py\<close>

text \<open>
  The three log functions return at once while no configuration getter is set.
  Otherwise they read \<open>config.get("logging", {}).get(flag, True)\<close> from
  \<open>get_config()\<close>, which raises \<open>AttributeError\<close> when the configuration or its
  \<open>logging\<close> entry is not a dict. The printed line is not modelled.
\<close>

definition logging_flag :: "world \<Rightarrow> string \<Rightarrow> (exn + bool) \<times> world" where
  "logging_flag w flag =
     (let (config, w1) = get_config w in
      case config of
        JObj cfg \<Rightarrow>
          (case dict_get_default cfg ''logging'' (JObj []) of
             JObj l \<Rightarrow> (Inr (truthy (dict_get_default l flag (JBool True))), w1)
           | v \<Rightarrow> (Inl (attribute_error v ''get''), w1))
      | v \<Rightarrow> (Inl (attribute_error v ''get''), w1))"

definition log_request :: "world \<Rightarrow> (exn + unit) \<times> world" where
  "log_request w =
     (if \<not> config_getter_set w then (Inr (), w)
      else case logging_flag w ''logRequests'' of
             (Inl e, w1) \<Rightarrow> (Inl e, w1)
           | (Inr enabled, w1) \<Rightarrow> (Inr (), w1))"

definition log_success :: "world \<Rightarrow> json \<Rightarrow> json \<Rightarrow> usage \<Rightarrow> (exn + unit) \<times> world" where
  "log_success w provider model tokens =
     (if \<not> config_getter_set w then (Inr (), w)
      else case logging_flag w ''enabled'' of
             (Inl e, w1) \<Rightarrow> (Inl e, w1)
           | (Inr enabled, w1) \<Rightarrow>
               if \<not> enabled then (Inr (), w1)
               else (Inr (), w1\<lparr>last_successful_completion :=
                                   Some \<lparr>hs_timestamp = clock_ms w1, hs_provider = provider,
                                         hs_model = model, hs_tokens = tokens\<rparr>\<rparr>))"

definition log_error :: "world \<Rightarrow> exn \<Rightarrow> json \<Rightarrow> (exn + unit) \<times> world" where
  "log_error w error requested_model =
     (if \<not> config_getter_set w then (Inr (), w)
      else case logging_flag w ''logErrors'' of
             (Inl e, w1) \<Rightarrow> (Inl e, w1)
           | (Inr enabled, w1) \<Rightarrow>
               if \<not> enabled then (Inr (), w1)
               else (Inr (), w1\<lparr>last_error :=
                                   Some \<lparr>he_timestamp = clock_ms w1, he_message = str_of error,
                                         he_requested_model = requested_model\<rparr>\<rparr>))"

section \<open>litellm_client.py: chat\<close>

text \<open>
  \<open>str(x)\<close> as an f-string prints it. The interpreter's print form of a list or a
  dict is not reproduced here: it is the parameter \<open>py_repr\<close> of the world.
\<close>

definition py_str :: "world \<Rightarrow> json \<Rightarrow> string" where
  "py_str w v =
     (case v of
        JNull \<Rightarrow> ''None''
      | JBool b \<Rightarrow> (if b then ''True'' else ''False'')
      | JInt i \<Rightarrow> show_int i
      | JFloat r \<Rightarrow> r
      | JStr s \<Rightarrow> s
      | _ \<Rightarrow> py_repr w v)"

text \<open>The catalogue, with the display name and the environment variable of each provider.\<close>

definition SUPPORTED_PROVIDERS :: "(string \<times> string \<times> string) list" where
  "SUPPORTED_PROVIDERS =
     [(''openai'', ''OpenAI'', ''OPENAI_API_KEY''),
      (''anthropic'', ''Anthropic'', ''ANTHROPIC_API_KEY''),
      (''groq'', ''Groq'', ''GROQ_API_KEY''),
      (''mistral'', ''Mistral'', ''MISTRAL_API_KEY''),
      (''google'', ''Google (Gemini)'', ''GEMINI_API_KEY''),
      (''cohere'', ''Cohere'', ''COHERE_API_KEY''),
      (''together_ai'', ''Together AI'', ''TOGETHER_API_KEY''),
      (''openrouter'', ''OpenRouter'', ''OPENROUTER_API_KEY''),
      (''deepseek'', ''DeepSeek'', ''DEEPSEEK_API_KEY''),
      (''cerebras'', ''Cerebras'', ''CEREBRAS_API_KEY'')]"

definition get_provider_model_string :: "world \<Rightarrow> json \<Rightarrow> json \<Rightarrow> json" where
  "get_provider_model_string w provider model =
     (if provider = JStr ''openai'' then model
      else if provider = JStr ''anthropic'' then model
      else if provider = JStr ''groq'' then JStr (''groq/'' @ py_str w model)
      else if provider = JStr ''mistral'' then JStr (''mistral/'' @ py_str w model)
      else if provider = JStr ''google'' then JStr (''gemini/'' @ py_str w model)
      else if provider = JStr ''cohere'' then JStr (''cohere/'' @ py_str w model)
      else if provider = JStr ''together_ai'' then JStr (''together_ai/'' @ py_str w model)
      else if provider = JStr ''openrouter'' then JStr (''openrouter/'' @ py_str w model)
      else if provider = JStr ''deepseek'' then JStr (''deepseek/'' @ py_str w model)
      else if provider = JStr ''cerebras'' then JStr (''cerebras/'' @ py_str w model)
      else model)"

text \<open>A list or a dict cannot be a dictionary key: hashing it raises \<open>TypeError\<close>.\<close>

definition unhashable :: "json \<Rightarrow> exn" where
  "unhashable v = Error ''TypeError'' (''unhashable type: '' @ [CHR 0x27] @ type_name v @ [CHR 0x27]) JNull"

fun is_hashable :: "json \<Rightarrow> bool" where
  "is_hashable (JList xs) = False"
| "is_hashable (JObj kvs) = False"
| "is_hashable _ = True"

text \<open>\<open>_provider_online[provider] = flag\<close>\<close>

definition set_provider_online :: "world \<Rightarrow> json \<Rightarrow> bool \<Rightarrow> (exn + unit) \<times> world" where
  "set_provider_online w provider flag =
     (if is_hashable provider
      then (Inr (), w\<lparr>provider_online := (provider_online w)(provider := Some flag)\<rparr>)
      else (Inl (unhashable provider), w))"

text \<open>The lookup of the key in the environment, \<open>provider in SUPPORTED_PROVIDERS\<close> first.\<close>

definition env_api_key :: "world \<Rightarrow> json \<Rightarrow> json \<Rightarrow> exn + json" where
  "env_api_key w provider api_key =
     (if \<not> is_hashable provider then Inl (unhashable provider)
      else case provider of
             JStr p \<Rightarrow>
               (case map_of SUPPORTED_PROVIDERS p of
                  Some (name, env_var) \<Rightarrow>
                    Inr (case environ w env_var of Some k \<Rightarrow> JStr k | None \<Rightarrow> JNull)
                | None \<Rightarrow> Inr api_key)
           | _ \<Rightarrow> Inr api_key)"

record chat_result =
  cr_text :: string
  cr_usage :: "usage option"

definition extract_text :: "model_response \<Rightarrow> string" where
  "extract_text response =
     (case mr_choices response of
        [] \<Rightarrow> []
      | message # rest \<Rightarrow>
          (case message of
             Some (Some content) \<Rightarrow> content
           | _ \<Rightarrow> []))"

text \<open>\<open>x or 0\<close> on an optional count.\<close>

fun or_zero :: "int option \<Rightarrow> int" where
  "or_zero None = 0"
| "or_zero (Some n) = n"

definition extract_usage :: "model_response \<Rightarrow> usage option" where
  "extract_usage response =
     (case mr_usage response of
        None \<Rightarrow> None
      | Some u \<Rightarrow>
          let p = or_zero (bu_prompt_tokens u);
              c = or_zero (bu_completion_tokens u);
              t = or_zero (bu_total_tokens u)
          in Some \<lparr>prompt_tokens = p, completion_tokens = c,
                   total_tokens = (if t = 0 then p + c else t)\<rparr>)"

text \<open>The \<open>except\<close> clause of \<open>chat\<close>: mark the provider offline, raise again.\<close>

definition chat_failed :: "world \<Rightarrow> json \<Rightarrow> exn \<Rightarrow> (exn + chat_result) \<times> world" where
  "chat_failed w provider e =
     (case set_provider_online w provider False of
        (Inl e', w1) \<Rightarrow> (Inl e', w1)
      | (Inr u, w1) \<Rightarrow> (Inl e, w1))"

definition chat :: "world \<Rightarrow> json list \<Rightarrow> pydict \<Rightarrow> (exn + chat_result) \<times> world" where
  "chat w messages options =
     (let provider = dict_get_default options ''provider'' (JStr ''openai'');
          model = dict_get_default options ''model'' (JStr ''gpt-4'');
          api_key0 = dict_get options ''api_key''
      in case (if truthy api_key0 then Inr api_key0 else env_api_key w provider api_key0) of
           Inl e \<Rightarrow> (Inl e, w)
         | Inr api_key \<Rightarrow>
             if \<not> truthy api_key
             then (Inl (Error ''ValueError''
                          (''No API key found for provider '' @ [CHR 0x27] @ py_str w provider @ [CHR 0x27])
                          JNull), w)
             else
               let request = \<lparr>rq_model = get_provider_model_string w provider model,
                              rq_messages = messages,
                              rq_api_key = api_key,
                              rq_temperature = dict_get options ''temperature'',
                              rq_max_tokens = dict_get options ''max_tokens''\<rparr>;
                   w1 = w\<lparr>completion_calls := completion_calls w @ [request]\<rparr>
               in (case completion w request of
                     Inl e \<Rightarrow> chat_failed w1 provider e
                   | Inr response \<Rightarrow>
                       (case set_provider_online w1 provider True of
                          (Inl e, w2) \<Rightarrow> chat_failed w2 provider e
                        | (Inr u, w2) \<Rightarrow>
                            let text = extract_text response in
                            if text = []
                            then chat_failed w2 provider
                                   (Error ''ValueError'' ''Backend returned empty response'' JNull)
                            else (Inr \<lparr>cr_text = text, cr_usage = extract_usage response\<rparr>, w2))))"

section \<open>openai_adapter.py\<close>

datatype response_body =
    ErrorBody (eb_message: string) (eb_type: string) (eb_code: json)
  | CompletionBody (cb_id: string) (cb_object: string) (cb_created: nat) (cb_model: json)
      (cb_role: string) (cb_content: string) (cb_finish_reason: string) (cb_usage: usage)

record response =
  statusCode :: int
  body :: response_body

definition generate_completion_id :: "world \<Rightarrow> string \<times> world" where
  "generate_completion_id w =
     (let (random_chars, w1) = random_choices w ascii_lowercase_digits 7
      in (''chatcmpl-'' @ show_nat (clock_ms w1) @ ''-'' @ random_chars, w1))"

definition create_error_response :: "exn \<Rightarrow> int \<Rightarrow> string \<Rightarrow> response" where
  "create_error_response error status_code error_type =
     \<lparr>statusCode = status_code,
      body = ErrorBody (if str_of error = [] then ''An error occurred'' else str_of error)
                       error_type (code_of error)\<rparr>"

definition validation_error :: "string \<Rightarrow> exn" where
  "validation_error msg = ValidationError msg 400 ''invalid_request_error''"

text \<open>The loop over the messages of \<open>validate_request\<close>.\<close>

fun check_messages :: "json list \<Rightarrow> exn + unit" where
  "check_messages [] = Inr ()"
| "check_messages (msg # rest) =
     (case msg of
        JObj m \<Rightarrow>
          if map_of m ''role'' = None \<or> dict_get m ''content'' = JNull
          then Inl (validation_error ''Each message must have role and content fields'')
          else check_messages rest
      | _ \<Rightarrow> Inl (validation_error ''Each message must be an object''))"

fun is_str :: "json \<Rightarrow> bool" where
  "is_str (JStr s) = True"
| "is_str _ = False"

fun strip_is_falsy :: "json \<Rightarrow> bool" where
  "strip_is_falsy (JStr s) = strip_is_empty s"
| "strip_is_falsy _ = False"

definition validate_request :: "json \<Rightarrow> exn + unit" where
  "validate_request request_body =
     (if \<not> truthy request_body then Inl (validation_error ''Request body is required'')
      else case request_body of
        JObj b \<Rightarrow>
          let model = dict_get b ''model'' in
          if \<not> truthy model \<or> \<not> is_str model \<or> strip_is_falsy model
          then Inl (validation_error ''model field is required'')
          else if \<not> truthy (dict_get b ''messages'') \<and> \<not> truthy (dict_get b ''prompt'')
          then Inl (validation_error ''Either messages or prompt field is required'')
          else
            let messages = dict_get b ''messages'' in
            if messages \<noteq> JNull
            then (case messages of
                    JList ms \<Rightarrow>
                      if ms = [] then Inl (validation_error ''messages must be a non-empty array'')
                      else check_messages ms
                  | _ \<Rightarrow> Inl (validation_error ''messages must be a non-empty array''))
            else Inr ()
      | v \<Rightarrow> Inl (attribute_error v ''get''))"

text \<open>\<open>m.get("content", "") for m in input_messages\<close>\<close>

fun message_contents :: "json list \<Rightarrow> exn + json list" where
  "message_contents [] = Inr []"
| "message_contents (m # ms) =
     (case m of
        JObj d \<Rightarrow>
          (case message_contents ms of
             Inl e \<Rightarrow> Inl e
           | Inr rest \<Rightarrow> Inr (dict_get_default d ''content'' (JStr []) # rest))
      | _ \<Rightarrow> Inl (attribute_error m ''get''))"

text \<open>\<open>sep.join(items)\<close>: every item has to be a \<open>str\<close>.\<close>

fun str_items :: "nat \<Rightarrow> json list \<Rightarrow> exn + string list" where
  "str_items i [] = Inr []"
| "str_items i (v # vs) =
     (case v of
        JStr s \<Rightarrow>
          (case str_items (Suc i) vs of
             Inl e \<Rightarrow> Inl e
           | Inr ss \<Rightarrow> Inr (s # ss))
      | _ \<Rightarrow> Inl (Error ''TypeError''
                    (''sequence item '' @ show_nat i @ '': expected str instance, '' @ type_name v @ '' found'')
                    JNull))"

fun join_strs :: "string \<Rightarrow> string list \<Rightarrow> string" where
  "join_strs sep [] = []"
| "join_strs sep [s] = s"
| "join_strs sep (s # t # ss) = s @ sep @ join_strs sep (t # ss)"

definition py_join :: "string \<Rightarrow> json list \<Rightarrow> exn + string" where
  "py_join sep items =
     (case str_items 0 items of
        Inl e \<Rightarrow> Inl e
      | Inr ss \<Rightarrow> Inr (join_strs sep ss))"

text \<open>The usage block: the backend's report when there is one, the estimate otherwise.\<close>

definition compute_usage :: "json list \<Rightarrow> chat_result \<Rightarrow> exn + usage" where
  "compute_usage input_messages result =
     (case cr_usage result of
        Some u \<Rightarrow> Inr u
      | None \<Rightarrow>
          (case message_contents input_messages of
             Inl e \<Rightarrow> Inl e
           | Inr items \<Rightarrow>
               (case py_join '' '' items of
                  Inl e \<Rightarrow> Inl e
                | Inr prompt_text \<Rightarrow>
                    let p = estimate_tokens prompt_text;
                        c = estimate_tokens (cr_text result)
                    in Inr \<lparr>prompt_tokens = p, completion_tokens = c, total_tokens = p + c\<rparr>)))"

text \<open>\<open>a or b\<close>\<close>

definition py_or :: "json \<Rightarrow> json \<Rightarrow> json" where
  "py_or a b = (if truthy a then a else b)"

text \<open>The messages handed to \<open>chat\<close>: the request's list, or the prompt as one user message.\<close>

definition input_messages_of :: "pydict \<Rightarrow> json list" where
  "input_messages_of b =
     (let messages = dict_get b ''messages''; prompt = dict_get b ''prompt'' in
      if truthy messages
      then (case messages of JList ms \<Rightarrow> ms | _ \<Rightarrow> [])
      else [JObj [(''role'', JStr ''user''), (''content'', prompt)]])"

definition chat_options :: "pydict \<Rightarrow> json \<Rightarrow> json \<Rightarrow> pydict" where
  "chat_options b provider model =
     (let temperature = dict_get b ''temperature'';
          max_tokens = py_or (dict_get b ''max_tokens'') (dict_get b ''max_completion_tokens'');
          options = [(''provider'', provider), (''model'', model), (''api_key'', JNull)];
          options1 = (if temperature \<noteq> JNull then dict_set options ''temperature'' temperature else options)
      in if max_tokens \<noteq> JNull then dict_set options1 ''max_tokens'' max_tokens else options1)"

text \<open>
  The body of the \<open>try\<close> after the activation check. Past \<open>validate_request\<close> the
  request body is a dict and \<open>messages\<close>, when truthy, a list.
\<close>

definition try_body :: "world \<Rightarrow> json \<Rightarrow> (exn + response) \<times> world" where
  "try_body w request_body =
     (case validate_request request_body of
        Inl e \<Rightarrow> (Inl e, w)
      | Inr ok \<Rightarrow>
          (case request_body of
             JObj b \<Rightarrow>
               (let (config, w1) = get_config w;
                    requested_model = dict_get_default b ''model'' (JStr [])
                in case config of
                     JObj cfg \<Rightarrow>
                       (let provider = dict_get_default cfg ''provider'' (JStr ''openai'');
                            model = dict_get_default cfg ''model'' (JStr ''gpt-4'')
                        in case log_request w1 of
                             (Inl e, w2) \<Rightarrow> (Inl e, w2)
                           | (Inr u, w2) \<Rightarrow>
                               (case chat w2 (input_messages_of b) (chat_options b provider model) of
                                  (Inl e, w3) \<Rightarrow> (Inl e, w3)
                                | (Inr result, w3) \<Rightarrow>
                                    (case compute_usage (input_messages_of b) result of
                                       Inl e \<Rightarrow> (Inl e, w3)
                                     | Inr usage \<Rightarrow>
                                         (case log_success w3 provider model usage of
                                            (Inl e, w4) \<Rightarrow> (Inl e, w4)
                                          | (Inr u', w4) \<Rightarrow>
                                              (let (cid, w5) = generate_completion_id w4
                                               in (Inr \<lparr>statusCode = 200,
                                                        body = CompletionBody cid ''chat.completion''
                                                                 (clock_ms w5 div 1000) requested_model
                                                                 ''assistant'' (cr_text result) ''stop'' usage\<rparr>,
                                                   w5))))))
                   | v \<Rightarrow> (Inl (attribute_error v ''get''), w1))
           | v \<Rightarrow> (Inl (attribute_error v ''get''), w)))"

text \<open>
  The two \<open>except\<close> clauses: both read \<open>request_body.get("model")\<close> and call
  \<open>log_error\<close> first, and an exception raised there leaves the handler.
\<close>

definition on_exception :: "world \<Rightarrow> json \<Rightarrow> exn \<Rightarrow> (exn + response) \<times> world" where
  "on_exception w request_body e =
     (case request_body of
        JObj b \<Rightarrow>
          (case log_error w e (dict_get b ''model'') of
             (Inl e', w1) \<Rightarrow> (Inl e', w1)
           | (Inr u, w1) \<Rightarrow>
               (Inr (case e of
                       ValidationError msg status_code error_type \<Rightarrow>
                         create_error_response e status_code error_type
                     | _ \<Rightarrow>
                         (let (status_code, error_type) = classify_error e
                          in create_error_response e status_code error_type)),
                w1))
      | v \<Rightarrow> (Inl (attribute_error v ''get''), w))"

definition handle_chat_completion :: "world \<Rightarrow> json \<Rightarrow> (exn + response) \<times> world" where
  "handle_chat_completion w request_body =
     (if \<not> is_emulator_active w
      then (Inr (create_error_response
                   (Error ''Exception'' ''Emulator is not active. Start it from the configuration UI.'' JNull)
                   503 ''service_unavailable''), w)
      else case try_body w request_body of
             (Inr r, w1) \<Rightarrow> (Inr r, w1)
           | (Inl e, w1) \<Rightarrow> on_exception w1 request_body e)"

text \<open>
  The estimate as the specification words it: \<open>ceil(length / 4)\<close> per message
  content, summed.
\<close>

definition per_message_estimate :: "string list \<Rightarrow> int" where
  "per_message_estimate contents = sum_list (map (\<lambda>c. (int (length c) + 3) div 4) contents)"

section \<open>A process at start\<close>

text \<open>
  The module globals as the modules initialise them, in an empty configuration
  directory: nothing cached, the emulator inactive (the defaults say so), the
  logger's configuration getter set by \<open>main.py\<close>. The surroundings are fixed to
  one instance: an OpenAI key in the environment and a backend that answers "ok"
  without a usage report.
\<close>

definition start_world :: world where
  "start_world =
     \<lparr>config_file = None, config_writable = True,
      models_file = None, models_writable = True,
      presets_file = None, presets_writable = True,
      fs_stamp = 1, clock_ms = 1700000000123,
      entropy = (\<lambda>i. i), rng_pos = 0,
      environ = (\<lambda>k. if k = ''OPENAI_API_KEY'' then Some ''sk-test'' else None),
      completion = (\<lambda>q. Inr \<lparr>mr_choices = [Some (Some ''ok'')], mr_usage = None\<rparr>),
      completion_calls = [],
      cached_config = JNull, config_mtime = None,
      cached_models = JNull,
      cached_saved_configs = None, store = (\<lambda>r. []), next_ref = 0,
      emulator_active = False,
      provider_online = (\<lambda>p. None),
      config_getter_set = True,
      last_successful_completion = None, last_error = None,
      py_repr = (\<lambda>v. [])\<rparr>"

section \<open>Error classification\<close>

text \<open>
  Claim C2. \<open>classify_error\<close> is the ordered rule list of the specification, the
  first matching rule deciding: it equals \<open>Classify\<close> on every failure. A failure
  whose lowercased message contains both "invalid" and "api key" and that matches
  no network rule is classified (401, authentication_error), not
  (400, invalid_request_error); a failure that matches no rule is classified
  (500, internal_server_error).
\<close>

theorem classify_error_first_match:
  "classify_error e = Classify e
   \<and> (str_in ''invalid'' (py_lower (str_of e)) \<and> str_in ''api key'' (py_lower (str_of e))
        \<and> \<not> matches_network_rule e
      \<longrightarrow> classify_error e = (401, ''authentication_error'')
          \<and> classify_error e \<noteq> (400, ''invalid_request_error''))
   \<and> (\<not> matches_network_rule e
        \<and> (\<forall>(ts, out) \<in> set message_rules. \<not> any_term_in ts (py_lower (str_of e)))
      \<longrightarrow> classify_error e = (500, ''internal_server_error''))"
  by (simp add: classify_error_def Classify_def matches_network_rule_def network_terms_def
        message_rules_def any_term_in_def Let_def)

theorem classify_error_first_match_witness:
  "(str_in ''invalid'' (py_lower (str_of (Error ''Exception'' ''Invalid API key provided'' JNull)))
    \<and> str_in ''api key'' (py_lower (str_of (Error ''Exception'' ''Invalid API key provided'' JNull)))
    \<and> \<not> matches_network_rule (Error ''Exception'' ''Invalid API key provided'' JNull))
   \<and> classify_error (Error ''Exception'' ''Invalid API key provided'' JNull) = (401, ''authentication_error'')
   \<and> (\<not> matches_network_rule (Error ''Exception'' ''Something unexpected happened'' JNull)
       \<and> find (\<lambda>(ts, out). any_term_in ts
                   (py_lower (str_of (Error ''Exception'' ''Something unexpected happened'' JNull))))
            message_rules = None)
   \<and> classify_error (Error ''Exception'' ''Something unexpected happened'' JNull) = (500, ''internal_server_error'')"
proof -
  let ?e1 = "Error ''Exception'' ''Invalid API key provided'' JNull"
  let ?e2 = "Error ''Exception'' ''Something unexpected happened'' JNull"
  have h1: "str_in ''invalid'' (py_lower (str_of ?e1)) \<and> str_in ''api key'' (py_lower (str_of ?e1))
        \<and> \<not> matches_network_rule ?e1"
    by code_simp
  have h2: "\<not> matches_network_rule ?e2
       \<and> (\<forall>(ts, out) \<in> set message_rules. \<not> any_term_in ts (py_lower (str_of ?e2)))"
    by code_simp
  have h3: "find (\<lambda>(ts, out). any_term_in ts (py_lower (str_of ?e2))) message_rules = None"
    by code_simp
  from h1 h2 classify_error_first_match [of ?e1] classify_error_first_match [of ?e2]
  have "classify_error ?e1 = (401, ''authentication_error'')"
    and "classify_error ?e2 = (500, ''internal_server_error'')"
    by blast+
  with h1 h2 h3 show ?thesis by blast
qed

section \<open>Configuration and models cache\<close>

lemma get_config_missing_file: "config_file w = None \<Longrightarrow> get_config w = (get_default_config, w)"
  by (simp add: get_config_def)

lemma get_config_frame:
  "\<exists>c m. snd (get_config w) = w\<lparr>cached_config := c, config_mtime := m\<rparr>"
proof (cases "config_file w")
  case None
  then have "snd (get_config w) = w\<lparr>cached_config := cached_config w, config_mtime := config_mtime w\<rparr>"
    by (simp add: get_config_def)
  then show ?thesis by blast
next
  case (Some f)
  show ?thesis
  proof (cases "cached_config w \<noteq> JNull \<and> config_mtime w = Some (f_mtime f)")
    case True
    with Some have "snd (get_config w) = w\<lparr>cached_config := cached_config w, config_mtime := config_mtime w\<rparr>"
      by (simp add: get_config_def)
    then show ?thesis by blast
  next
    case False
    show ?thesis
    proof (cases "f_content f")
      case Garbage
      with Some False have "snd (get_config w) = w\<lparr>cached_config := cached_config w,
          config_mtime := (if cached_config w \<noteq> JNull then Some (f_mtime f) else config_mtime w)\<rparr>"
        by (auto simp add: get_config_def Let_def)
      then show ?thesis by blast
    next
      case (Doc v)
      with Some False have "snd (get_config w) = w\<lparr>cached_config := v, config_mtime := Some (f_mtime f)\<rparr>"
        by (auto simp add: get_config_def Let_def)
      then show ?thesis by blast
    qed
  qed
qed

lemma get_config_loaded:
  "config_file w = Some f \<Longrightarrow> f_content f = Doc v \<Longrightarrow>
   cached_config (snd (get_config w)) = fst (get_config w)"
  by (auto simp add: get_config_def Let_def)

lemma get_config_keeps_file [simp]: "config_file (snd (get_config w)) = config_file w"
  using get_config_frame [of w] by (elim exE) simp


lemma get_config_hit:
  "config_file w = Some f \<Longrightarrow> cached_config w \<noteq> JNull \<Longrightarrow> config_mtime w = Some (f_mtime f) \<Longrightarrow>
   get_config w = (cached_config w, w)"
  by (simp add: get_config_def)

lemma map_of_dict_set: "map_of (dict_set d k v) = (map_of d)(k \<mapsto> v)"
  by (simp add: dict_set_def update_conv')

lemma dict_get_dict_set: "dict_get (dict_set d k v) k' = (if k' = k then v else dict_get d k')"
  by (simp add: dict_get_def map_of_dict_set)






lemma update_config_success:
  "update_config w u = (Inr True, w') \<Longrightarrow>
   \<exists>d. w' = (snd (get_config w))\<lparr>config_file := Some \<lparr>f_mtime = fs_stamp (snd (get_config w)),
                                                  f_content = Doc (JObj d)\<rparr>,
               cached_config := JObj d,
               config_mtime := Some (fs_stamp (snd (get_config w)))\<rparr>"
  by (cases "get_config w")
     (auto simp add: update_config_def Let_def split: json.splits if_splits)

text \<open>
  Claim C10. Whatever is cached, \<open>get_config\<close> returns the defaults when the
  configuration file does not exist, and leaves the cache as it is. So after a load
  of a document from the file, and after an \<open>update_config\<close> that succeeded, the
  cache holds the configuration; once the file is deleted the next \<open>get_config\<close>
  returns the defaults while the cache still holds that configuration.
\<close>

theorem get_config_defaults_after_file_deleted:
  "(config_file w = None \<longrightarrow> get_config w = (get_default_config, w))
   \<and> (\<forall>f v. config_file w = Some f \<and> f_content f = Doc v \<longrightarrow>
         cached_config (snd (get_config w)) = fst (get_config w)
         \<and> get_config ((snd (get_config w))\<lparr>config_file := None\<rparr>)
             = (get_default_config, (snd (get_config w))\<lparr>config_file := None\<rparr>))
   \<and> (\<forall>w'. update_config w u = (Inr True, w') \<longrightarrow>
         cached_config w' \<noteq> JNull
         \<and> get_config w' = (cached_config w', w')
         \<and> cached_config (w'\<lparr>config_file := None\<rparr>) = cached_config w'
         \<and> get_config (w'\<lparr>config_file := None\<rparr>) = (get_default_config, w'\<lparr>config_file := None\<rparr>))"
proof (intro conjI allI impI)
  assume "config_file w = None"
  then show "get_config w = (get_default_config, w)" by (rule get_config_missing_file)
next
  fix f v
  assume "config_file w = Some f \<and> f_content f = Doc v"
  then show "cached_config (snd (get_config w)) = fst (get_config w)"
    by (simp add: get_config_loaded)
next
  fix f v
  show "get_config ((snd (get_config w))\<lparr>config_file := None\<rparr>)
             = (get_default_config, (snd (get_config w))\<lparr>config_file := None\<rparr>)"
    by (simp add: get_config_missing_file)
next
  fix w'
  assume "update_config w u = (Inr True, w')"
  from update_config_success [OF this] obtain d where
    w': "w' = (snd (get_config w))\<lparr>config_file := Some \<lparr>f_mtime = fs_stamp (snd (get_config w)),
                                                  f_content = Doc (JObj d)\<rparr>,
               cached_config := JObj d,
               config_mtime := Some (fs_stamp (snd (get_config w)))\<rparr>" ..
  show "cached_config w' \<noteq> JNull" by (simp add: w')
  show "get_config w' = (cached_config w', w')" by (simp add: w' get_config_def)
  show "cached_config (w'\<lparr>config_file := None\<rparr>) = cached_config w'" by simp
  show "get_config (w'\<lparr>config_file := None\<rparr>) = (get_default_config, w'\<lparr>config_file := None\<rparr>)"
    by (simp add: get_config_missing_file)
qed

theorem get_config_defaults_after_file_deleted_witness:
  "(config_file start_world = None \<and> get_config start_world = (get_default_config, start_world))
   \<and> (config_file (start_world\<lparr>config_file := Some \<lparr>f_mtime = 5, f_content = Doc (JObj [(''provider'', JStr ''groq'')])\<rparr>\<rparr>)
         = Some \<lparr>f_mtime = 5, f_content = Doc (JObj [(''provider'', JStr ''groq'')])\<rparr>
       \<and> f_content \<lparr>f_mtime = 5, f_content = Doc (JObj [(''provider'', JStr ''groq'')])\<rparr>
         = Doc (JObj [(''provider'', JStr ''groq'')])
       \<and> cached_config (snd (get_config (start_world\<lparr>config_file := Some \<lparr>f_mtime = 5, f_content = Doc (JObj [(''provider'', JStr ''groq'')])\<rparr>\<rparr>)))
         = JObj [(''provider'', JStr ''groq'')]
       \<and> fst (get_config ((snd (get_config (start_world\<lparr>config_file := Some \<lparr>f_mtime = 5, f_content = Doc (JObj [(''provider'', JStr ''groq'')])\<rparr>\<rparr>)))\<lparr>config_file := None\<rparr>))
         = get_default_config)
   \<and> (fst (update_config start_world [(''model'', JStr ''gpt-4o'')]) = Inr True
       \<and> cached_config (snd (update_config start_world [(''model'', JStr ''gpt-4o'')])) \<noteq> JNull
       \<and> fst (get_config ((snd (update_config start_world [(''model'', JStr ''gpt-4o'')]))\<lparr>config_file := None\<rparr>))
         = get_default_config)"
proof -
  let ?F = "\<lparr>f_mtime = 5, f_content = Doc (JObj [(''provider'', JStr ''groq'')])\<rparr>"
  let ?W = "start_world\<lparr>config_file := Some ?F\<rparr>"
  let ?u = "[(''model'', JStr ''gpt-4o'')]"
  have h1: "config_file start_world = None" by (simp add: start_world_def)
  have h2: "config_file ?W = Some ?F \<and> f_content ?F = Doc (JObj [(''provider'', JStr ''groq'')])" by simp
  have g: "fst (get_config ?W) = JObj [(''provider'', JStr ''groq'')]"
    by (simp add: get_config_def start_world_def)
  have u1: "fst (update_config start_world ?u) = Inr True"
    by (simp add: update_config_def get_config_def start_world_def get_default_config_def Let_def)
  then have h3: "update_config start_world ?u = (Inr True, snd (update_config start_world ?u))"
    by (cases "update_config start_world ?u") simp
  note t1 = get_config_defaults_after_file_deleted [of start_world ?u]
  note t2 = get_config_defaults_after_file_deleted [of ?W ?u]
  from t1 h1 have a: "get_config start_world = (get_default_config, start_world)" by blast
  from t2 h2 have b: "cached_config (snd (get_config ?W)) = fst (get_config ?W)
         \<and> get_config ((snd (get_config ?W))\<lparr>config_file := None\<rparr>)
             = (get_default_config, (snd (get_config ?W))\<lparr>config_file := None\<rparr>)" by blast
  from t1 h3 have c: "cached_config (snd (update_config start_world ?u)) \<noteq> JNull
      \<and> get_config ((snd (update_config start_world ?u))\<lparr>config_file := None\<rparr>)
            = (get_default_config, (snd (update_config start_world ?u))\<lparr>config_file := None\<rparr>)" by blast
  from h1 a have p1: "config_file start_world = None \<and> get_config start_world = (get_default_config, start_world)"
    by simp
  from b g have p2: "cached_config (snd (get_config ?W)) = JObj [(''provider'', JStr ''groq'')]
      \<and> fst (get_config ((snd (get_config ?W))\<lparr>config_file := None\<rparr>)) = get_default_config"
    by simp
  from c have p3: "cached_config (snd (update_config start_world ?u)) \<noteq> JNull
      \<and> fst (get_config ((snd (update_config start_world ?u))\<lparr>config_file := None\<rparr>)) = get_default_config"
    by simp
  from p1 h2 p2 u1 p3 show ?thesis by blast
qed

lemma get_models_cache_cached:
  "cached_models w \<noteq> JNull \<Longrightarrow> get_models_cache w = (cached_models w, w)"
  by (simp add: get_models_cache_def)

lemma get_models_cache_result:
  "get_models_cache w = (doc, w1) \<Longrightarrow> cached_models w1 \<noteq> JNull \<Longrightarrow> cached_models w1 = doc"
  by (auto simp add: get_models_cache_def split: if_splits option.splits content.splits json.splits)

text \<open>
  Claim C5, as amended. \<open>get_models_cache\<close> has no modification-time check: a cached
  document is returned whatever the file holds; a document once returned and
  cached, or saved by \<open>save_models_cache\<close>, is returned again after any change of
  the file. Only while nothing is cached is the file read, and on a miss (no file,
  no parse, or no \<open>models\<close> list) the result is the empty model list with an absent
  timestamp, and nothing is cached.
\<close>

theorem get_models_cache_never_reloads:
  "(cached_models w \<noteq> JNull \<longrightarrow> get_models_cache w = (cached_models w, w))
   \<and> (\<forall>doc w1 changed. get_models_cache w = (doc, w1) \<and> cached_models w1 \<noteq> JNull \<longrightarrow>
         get_models_cache (w1\<lparr>models_file := changed\<rparr>) = (doc, w1\<lparr>models_file := changed\<rparr>))
   \<and> (\<forall>models w1. save_models_cache w models = (True, w1) \<longrightarrow>
         (\<forall>changed. fst (get_models_cache (w1\<lparr>models_file := changed\<rparr>))
            = JObj [(''lastUpdated'', JInt (int (clock_ms w))), (''models'', JList models)]))
   \<and> (cached_models w = JNull
        \<and> (\<forall>f cache. models_file w = Some f \<and> f_content f = Doc (JObj cache)
              \<longrightarrow> \<not> is_list (dict_get cache ''models''))
      \<longrightarrow> get_models_cache w = (JObj [(''models'', JList []), (''lastUpdated'', JNull)], w))"
proof (intro conjI allI impI)
  assume "cached_models w \<noteq> JNull"
  then show "get_models_cache w = (cached_models w, w)" by (rule get_models_cache_cached)
next
  fix doc w1 changed
  assume a: "get_models_cache w = (doc, w1) \<and> cached_models w1 \<noteq> JNull"
  then have "cached_models w1 = doc" by (auto dest: get_models_cache_result)
  with a show "get_models_cache (w1\<lparr>models_file := changed\<rparr>) = (doc, w1\<lparr>models_file := changed\<rparr>)"
    by (simp add: get_models_cache_def)
next
  fix models w1 changed
  assume "save_models_cache w models = (True, w1)"
  then show "fst (get_models_cache (w1\<lparr>models_file := changed\<rparr>))
            = JObj [(''lastUpdated'', JInt (int (clock_ms w))), (''models'', JList models)]"
    by (auto simp add: save_models_cache_def get_models_cache_def Let_def split: if_splits)
next
  assume a: "cached_models w = JNull
        \<and> (\<forall>f cache. models_file w = Some f \<and> f_content f = Doc (JObj cache)
              \<longrightarrow> \<not> is_list (dict_get cache ''models''))"
  show "get_models_cache w = (JObj [(''models'', JList []), (''lastUpdated'', JNull)], w)"
  proof (cases "models_file w")
    case None
    with a show ?thesis by (simp add: get_models_cache_def empty_models_cache_def)
  next
    case (Some f)
    with a show ?thesis
      by (auto simp add: get_models_cache_def empty_models_cache_def split: content.splits json.splits)
  qed
qed

theorem get_models_cache_never_reloads_witness:
  "(cached_models (start_world\<lparr>cached_models := JObj [(''models'', JList [JStr ''a'']), (''lastUpdated'', JInt 10)]\<rparr>) \<noteq> JNull
     \<and> fst (get_models_cache (start_world\<lparr>cached_models := JObj [(''models'', JList [JStr ''a'']), (''lastUpdated'', JInt 10)]\<rparr>))
        = JObj [(''models'', JList [JStr ''a'']), (''lastUpdated'', JInt 10)])
   \<and> (fst (save_models_cache start_world [JStr ''m'']) = True
     \<and> fst (get_models_cache ((snd (save_models_cache start_world [JStr ''m'']))\<lparr>models_file := None\<rparr>))
        = JObj [(''lastUpdated'', JInt 1700000000123), (''models'', JList [JStr ''m''])])
   \<and> (cached_models start_world = JNull \<and> models_file start_world = None
     \<and> get_models_cache start_world = (JObj [(''models'', JList []), (''lastUpdated'', JNull)], start_world))"
proof -
  let ?A = "JObj [(''models'', JList [JStr ''a'']), (''lastUpdated'', JInt 10)]"
  let ?W = "start_world\<lparr>cached_models := ?A\<rparr>"
  have h1: "cached_models ?W \<noteq> JNull" by simp
  have s1: "fst (save_models_cache start_world [JStr ''m'']) = True"
    by (simp add: save_models_cache_def start_world_def Let_def)
  then have h3: "save_models_cache start_world [JStr ''m''] = (True, snd (save_models_cache start_world [JStr ''m'']))"
    by (cases "save_models_cache start_world [JStr ''m'']") simp
  have c: "clock_ms start_world = 1700000000123" by (simp add: start_world_def)
  have h4: "cached_models start_world = JNull" "models_file start_world = None"
    by (simp_all add: start_world_def)
  then have h4': "cached_models start_world = JNull
        \<and> (\<forall>f cache. models_file start_world = Some f \<and> f_content f = Doc (JObj cache)
              \<longrightarrow> \<not> is_list (dict_get cache ''models''))"
    by simp
  from get_models_cache_never_reloads [of ?W] h1
  have p1: "fst (get_models_cache ?W) = ?A" by simp
  from get_models_cache_never_reloads [of start_world] h3
  have "fst (get_models_cache ((snd (save_models_cache start_world [JStr ''m'']))\<lparr>models_file := None\<rparr>))
        = JObj [(''lastUpdated'', JInt (int (clock_ms start_world))), (''models'', JList [JStr ''m''])]"
    by blast
  then have p3: "fst (get_models_cache ((snd (save_models_cache start_world [JStr ''m'']))\<lparr>models_file := None\<rparr>))
        = JObj [(''lastUpdated'', JInt 1700000000123), (''models'', JList [JStr ''m''])]"
    by (simp add: c)
  from get_models_cache_never_reloads [of start_world] h4'
  have p4: "get_models_cache start_world = (JObj [(''models'', JList []), (''lastUpdated'', JNull)], start_world)"
    by blast
  from h1 p1 s1 p3 h4 p4 show ?thesis by blast
qed

text \<open>
  Claim C5 as stated fails: a models document is loaded from the file, the file is
  then replaced by another document with another modification time, and the next
  \<open>get_models_cache\<close> still returns the first document.
\<close>

theorem get_models_cache_ignores_file_change:
  "fst (get_models_cache
         ((snd (get_models_cache
                 (start_world\<lparr>models_file :=
                    Some \<lparr>f_mtime = 1,
                          f_content = Doc (JObj [(''models'', JList [JStr ''a'']), (''lastUpdated'', JInt 10)])\<rparr>\<rparr>)))
          \<lparr>models_file :=
             Some \<lparr>f_mtime = 2,
                   f_content = Doc (JObj [(''models'', JList [JStr ''b'']), (''lastUpdated'', JInt 20)])\<rparr>\<rparr>))
   = JObj [(''models'', JList [JStr ''a'']), (''lastUpdated'', JInt 10)]
   \<and> JObj [(''models'', JList [JStr ''a'']), (''lastUpdated'', JInt 10)]
     \<noteq> JObj [(''models'', JList [JStr ''b'']), (''lastUpdated'', JInt 20)]"
  by (simp add: get_models_cache_def start_world_def dict_get_def)

section \<open>Presets\<close>

lemma get_saved_configs_cached:
  "cached_saved_configs w = Some r \<Longrightarrow> get_saved_configs w = (r, w)"
  by (simp add: get_saved_configs_def)

lemma get_saved_configs_cases:
  assumes "get_saved_configs w = (r, w1)"
  shows "(cached_saved_configs w = Some r \<and> w1 = w)
       \<or> (cached_saved_configs w = None \<and> r = next_ref w
           \<and> (\<exists>f xs. presets_file w = Some f \<and> f_content f = Doc (JList xs)
                \<and> w1 = w\<lparr>store := (store w)(next_ref w := xs), next_ref := Suc (next_ref w),
                          cached_saved_configs := Some (next_ref w)\<rparr>))
       \<or> (cached_saved_configs w = None \<and> r = next_ref w
           \<and> \<not> (\<exists>f xs. presets_file w = Some f \<and> f_content f = Doc (JList xs))
           \<and> w1 = w\<lparr>store := (store w)(next_ref w := []), next_ref := Suc (next_ref w)\<rparr>)"
  using assms
  by (auto simp add: get_saved_configs_def new_list_def
           split: option.splits content.splits json.splits)

lemma get_saved_configs_writable:
  "get_saved_configs w = (r, w1) \<Longrightarrow> presets_writable w1 = presets_writable w"
  by (drule get_saved_configs_cases) auto

lemma get_saved_configs_file:
  "get_saved_configs w = (r, w1) \<Longrightarrow> presets_file w1 = presets_file w"
  by (drule get_saved_configs_cases) auto

lemma get_saved_configs_nonempty_cached:
  "get_saved_configs w = (r, w1) \<Longrightarrow> store w1 r \<noteq> [] \<Longrightarrow> cached_saved_configs w1 = Some r"
  by (drule get_saved_configs_cases) auto

lemma find_by_id_None_empty: "find_by_id [] cid = Inr None"
  by simp

lemma find_by_id_Some_nonempty: "find_by_id xs cid = Inr (Some (i, d)) \<Longrightarrow> xs \<noteq> []"
  by (cases xs) auto

lemma find_by_id_update:
  "find_by_id xs cid = Inr (Some (i, d)) \<Longrightarrow> dict_get d' ''id'' = JStr cid \<Longrightarrow>
   find_by_id (xs[i := JObj d']) cid = Inr (Some (i, d'))"
proof (induction xs arbitrary: i)
  case Nil
  then show ?case by simp
next
  case (Cons c cs)
  show ?case
  proof (cases c)
    case (JObj e)
    show ?thesis
    proof (cases "dict_get e ''id'' = JStr cid")
      case True
      with Cons.prems JObj show ?thesis by simp
    next
      case False
      with Cons.prems JObj obtain j where j: "find_by_id cs cid = Inr (Some (j, d))" "i = Suc j"
        by (auto split: sum.splits option.splits)
      from Cons.IH [OF j(1) Cons.prems(2)] j(2) JObj False show ?thesis by simp
    qed
  qed (insert Cons.prems, auto)
qed

lemma find_by_id_id:
  "find_by_id xs cid = Inr (Some (i, d)) \<Longrightarrow> dict_get d ''id'' = JStr cid"
proof (induction xs arbitrary: i)
  case Nil
  then show ?case by simp
next
  case (Cons c cs)
  then show ?case
    by (cases c) (auto split: if_splits sum.splits option.splits)
qed

lemma get_saved_config_by_id_cached:
  "cached_saved_configs W = Some r \<Longrightarrow> find_by_id (store W r) cid = Inr (Some (i, q)) \<Longrightarrow>
   get_saved_config_by_id W cid = (Inr (Some q), W)"
  by (simp add: get_saved_config_by_id_def get_saved_configs_cached)


lemma get_saved_config_by_id_Some:
  assumes "get_saved_config_by_id w cid = (Inr (Some p), w1)"
  shows "\<exists>r i. get_saved_configs w = (r, w1) \<and> find_by_id (store w1 r) cid = Inr (Some (i, p))"
proof -
  obtain r w' where g: "get_saved_configs w = (r, w')" by (cases "get_saved_configs w")
  with assms show ?thesis
    by (auto simp add: get_saved_config_by_id_def split: sum.splits option.splits)
qed

lemma get_saved_config_by_id_None:
  assumes "get_saved_config_by_id w cid = (Inr None, w1)"
  shows "\<exists>r. get_saved_configs w = (r, w1) \<and> find_by_id (store w1 r) cid = Inr None"
proof -
  obtain r w' where g: "get_saved_configs w = (r, w')" by (cases "get_saved_configs w")
  with assms show ?thesis
    by (auto simp add: get_saved_config_by_id_def split: sum.splits option.splits)
qed

text \<open>
  Claim C6. For a preset that \<open>get_saved_config_by_id\<close> finds under the id,
  \<open>update_saved_config\<close> with name, provider and model \<open>None\<close> and the key variable
  \<open>""\<close> returns the outcome of the save, and the preset then found under the id is
  the old one with \<open>apiKeyEnvVar\<close> set to the empty string: every other key, so
  name, provider and model, keeps its value. When the id matches no stored preset,
  \<open>update_saved_config\<close> returns \<open>False\<close> whatever its other arguments.
\<close>

theorem update_saved_config_clears_key_only:
  "(\<forall>p w1. get_saved_config_by_id w cid = (Inr (Some p), w1) \<longrightarrow>
      (\<exists>w2. update_saved_config w cid None None None (Some []) = (Inr (presets_writable w), w2)
         \<and> fst (get_saved_config_by_id w2 cid) = Inr (Some (dict_set p ''apiKeyEnvVar'' (JStr [])))
         \<and> dict_get (dict_set p ''apiKeyEnvVar'' (JStr [])) ''apiKeyEnvVar'' = JStr []
         \<and> (\<forall>k. k \<noteq> ''apiKeyEnvVar'' \<longrightarrow>
               dict_get (dict_set p ''apiKeyEnvVar'' (JStr [])) k = dict_get p k)))
   \<and> (\<forall>w1. get_saved_config_by_id w cid = (Inr None, w1) \<longrightarrow>
         update_saved_config w cid new_name provider model api_key_env_var = (Inr False, w1))"
proof (intro conjI allI impI)
  fix p w1
  assume a: "get_saved_config_by_id w cid = (Inr (Some p), w1)"
  from get_saved_config_by_id_Some [OF a] obtain r i where
    g: "get_saved_configs w = (r, w1)" and f: "find_by_id (store w1 r) cid = Inr (Some (i, p))"
    by blast
  let ?p' = "dict_set p ''apiKeyEnvVar'' (JStr [])"
  let ?w2 = "w1\<lparr>store := (store w1)(r := (store w1 r)[i := JObj ?p'])\<rparr>"
  from find_by_id_Some_nonempty [OF f] have ne: "store w1 r \<noteq> []" .
  from get_saved_configs_nonempty_cached [OF g ne] have c: "cached_saved_configs w1 = Some r" .
  from get_saved_configs_writable [OF g] have wr: "presets_writable w1 = presets_writable w" .
  from find_by_id_id [OF f] have idp: "dict_get p ''id'' = JStr cid" .
  then have idp': "dict_get ?p' ''id'' = JStr cid"
    by (simp add: dict_get_dict_set)
  let ?W = "(if presets_writable w
             then ?w2\<lparr>presets_file := Some \<lparr>f_mtime = fs_stamp ?w2, f_content = Doc (JList (store ?w2 r))\<rparr>,
                      cached_saved_configs := Some r\<rparr>
             else ?w2)"
  have u: "update_saved_config w cid None None None (Some []) = (Inr (presets_writable w), ?W)"
    using g f wr by (simp add: update_saved_config_def save_saved_configs_def)
  have cW: "cached_saved_configs ?W = Some r" using c by simp
  have sW: "store ?W r = (store w1 r)[i := JObj ?p']" by simp
  have fW: "find_by_id (store ?W r) cid = Inr (Some (i, ?p'))"
    using find_by_id_update [OF f idp'] by (simp only: sW)
  have "get_saved_config_by_id ?W cid = (Inr (Some ?p'), ?W)"
    by (rule get_saved_config_by_id_cached [OF cW fW])
  with u show "\<exists>w2. update_saved_config w cid None None None (Some []) = (Inr (presets_writable w), w2)
         \<and> fst (get_saved_config_by_id w2 cid) = Inr (Some ?p')
         \<and> dict_get ?p' ''apiKeyEnvVar'' = JStr []
         \<and> (\<forall>k. k \<noteq> ''apiKeyEnvVar'' \<longrightarrow> dict_get ?p' k = dict_get p k)"
    by (simp add: dict_get_dict_set)
next
  fix w1
  assume a: "get_saved_config_by_id w cid = (Inr None, w1)"
  from get_saved_config_by_id_None [OF a] obtain r where
    g: "get_saved_configs w = (r, w1)" and f: "find_by_id (store w1 r) cid = Inr None"
    by blast
  then show "update_saved_config w cid new_name provider model api_key_env_var = (Inr False, w1)"
    by (simp add: update_saved_config_def)
qed

theorem update_saved_config_clears_key_only_witness:
  "fst (get_saved_config_by_id
         (start_world\<lparr>presets_file := Some \<lparr>f_mtime = 1, f_content = Doc (JList
            [JObj [(''id'', JStr ''cfg-1-abcdef''), (''name'', JStr ''n''), (''provider'', JStr ''openai''),
                   (''model'', JStr ''gpt-4''), (''apiKeyEnvVar'', JStr ''OPENAI_API_KEY'')]])\<rparr>\<rparr>)
         ''cfg-1-abcdef'')
     = Inr (Some [(''id'', JStr ''cfg-1-abcdef''), (''name'', JStr ''n''), (''provider'', JStr ''openai''),
                  (''model'', JStr ''gpt-4''), (''apiKeyEnvVar'', JStr ''OPENAI_API_KEY'')])
   \<and> fst (get_saved_config_by_id
         (snd (update_saved_config
                (start_world\<lparr>presets_file := Some \<lparr>f_mtime = 1, f_content = Doc (JList
                   [JObj [(''id'', JStr ''cfg-1-abcdef''), (''name'', JStr ''n''), (''provider'', JStr ''openai''),
                          (''model'', JStr ''gpt-4''), (''apiKeyEnvVar'', JStr ''OPENAI_API_KEY'')]])\<rparr>\<rparr>)
                ''cfg-1-abcdef'' None None None (Some [])))
         ''cfg-1-abcdef'')
     = Inr (Some [(''id'', JStr ''cfg-1-abcdef''), (''name'', JStr ''n''), (''provider'', JStr ''openai''),
                  (''model'', JStr ''gpt-4''), (''apiKeyEnvVar'', JStr [])])
   \<and> fst (get_saved_config_by_id
         (start_world\<lparr>presets_file := Some \<lparr>f_mtime = 1, f_content = Doc (JList
            [JObj [(''id'', JStr ''cfg-1-abcdef''), (''name'', JStr ''n''), (''provider'', JStr ''openai''),
                   (''model'', JStr ''gpt-4''), (''apiKeyEnvVar'', JStr ''OPENAI_API_KEY'')]])\<rparr>\<rparr>)
         ''cfg-2-zzzzzz'')
     = Inr None
   \<and> fst (update_saved_config
         (start_world\<lparr>presets_file := Some \<lparr>f_mtime = 1, f_content = Doc (JList
            [JObj [(''id'', JStr ''cfg-1-abcdef''), (''name'', JStr ''n''), (''provider'', JStr ''openai''),
                   (''model'', JStr ''gpt-4''), (''apiKeyEnvVar'', JStr ''OPENAI_API_KEY'')]])\<rparr>\<rparr>)
         ''cfg-2-zzzzzz'' (Some ''m'') None None None)
     = Inr False"
proof -
  let ?P = "[(''id'', JStr ''cfg-1-abcdef''), (''name'', JStr ''n''), (''provider'', JStr ''openai''),
             (''model'', JStr ''gpt-4''), (''apiKeyEnvVar'', JStr ''OPENAI_API_KEY'')]"
  let ?W = "start_world\<lparr>presets_file := Some \<lparr>f_mtime = 1, f_content = Doc (JList [JObj ?P])\<rparr>\<rparr>"
  have g1: "fst (get_saved_config_by_id ?W ''cfg-1-abcdef'') = Inr (Some ?P)"
    by (simp add: get_saved_config_by_id_def get_saved_configs_def new_list_def start_world_def dict_get_def)
  then have h1: "get_saved_config_by_id ?W ''cfg-1-abcdef''
      = (Inr (Some ?P), snd (get_saved_config_by_id ?W ''cfg-1-abcdef''))"
    by (cases "get_saved_config_by_id ?W ''cfg-1-abcdef''") simp
  have g2: "fst (get_saved_config_by_id ?W ''cfg-2-zzzzzz'') = Inr None"
    by (simp add: get_saved_config_by_id_def get_saved_configs_def new_list_def start_world_def dict_get_def)
  then have h2: "get_saved_config_by_id ?W ''cfg-2-zzzzzz''
      = (Inr None, snd (get_saved_config_by_id ?W ''cfg-2-zzzzzz''))"
    by (cases "get_saved_config_by_id ?W ''cfg-2-zzzzzz''") simp
  have d: "dict_set ?P ''apiKeyEnvVar'' (JStr []) =
      [(''id'', JStr ''cfg-1-abcdef''), (''name'', JStr ''n''), (''provider'', JStr ''openai''),
       (''model'', JStr ''gpt-4''), (''apiKeyEnvVar'', JStr [])]"
    by (simp add: dict_set_def)
  from update_saved_config_clears_key_only [of ?W "''cfg-1-abcdef''"] h1
  obtain w2 where "update_saved_config ?W ''cfg-1-abcdef'' None None None (Some []) = (Inr (presets_writable ?W), w2)"
    and "fst (get_saved_config_by_id w2 ''cfg-1-abcdef'') = Inr (Some (dict_set ?P ''apiKeyEnvVar'' (JStr [])))"
    by blast
  then have p1: "fst (get_saved_config_by_id
         (snd (update_saved_config ?W ''cfg-1-abcdef'' None None None (Some []))) ''cfg-1-abcdef'')
     = Inr (Some (dict_set ?P ''apiKeyEnvVar'' (JStr [])))"
    by simp
  from update_saved_config_clears_key_only [of ?W "''cfg-2-zzzzzz''" "Some ''m''" None None None] h2
  have p2: "fst (update_saved_config ?W ''cfg-2-zzzzzz'' (Some ''m'') None None None) = Inr False"
    by simp
  from g1 p1 g2 p2 show ?thesis unfolding d by blast
qed

section \<open>Preset round trip\<close>

lemma digit_char_values:
  "digit_char 0 = CHR ''0''" "digit_char (Suc 0) = CHR ''1''" "digit_char 1 = CHR ''1''"
  "digit_char 2 = CHR ''2''"
  "digit_char 3 = CHR ''3''" "digit_char 4 = CHR ''4''" "digit_char 5 = CHR ''5''"
  "digit_char 6 = CHR ''6''" "digit_char 7 = CHR ''7''" "digit_char 8 = CHR ''8''"
  "digit_char 9 = CHR ''9''"
  by code_simp+





lemma show_nat_example: "show_nat 1700000000123 = ''1700000000123''"
  by (simp add: show_nat.simps digit_char_values)

lemma upt_examples: "[0..<6] = [0, 1, 2, 3, 4, 5]" "[0..<7] = [0, 1, 2, 3, 4, 5, 6]"
  by code_simp+


lemma generate_id_state: "snd (generate_id w) = w\<lparr>rng_pos := rng_pos w + 6\<rparr>"
  by (simp add: generate_id_def split_def random_choices_def Let_def)

lemma add_saved_config_unfold:
  assumes g: "get_saved_configs w = (r, w0)"
  shows "add_saved_config w name provider model key =
     (let P = [(''id'', JStr (fst (generate_id w0))), (''name'', JStr name), (''provider'', JStr provider),
               (''model'', JStr model), (''apiKeyEnvVar'', JStr key)];
          w3 = w0\<lparr>rng_pos := rng_pos w0 + 6, store := (store w0)(r := store w0 r @ [JObj P])\<rparr>
      in if presets_writable w
         then (Some P, w3\<lparr>presets_file := Some \<lparr>f_mtime = fs_stamp w0,
                                                 f_content = Doc (JList (store w0 r @ [JObj P]))\<rparr>,
                           cached_saved_configs := Some r\<rparr>)
         else (None, w3))"
proof -
  obtain nid wg where gi: "generate_id w0 = (nid, wg)" by (cases "generate_id w0")
  with generate_id_state [of w0] have wg: "wg = w0\<lparr>rng_pos := rng_pos w0 + 6\<rparr>" by simp
  from get_saved_configs_writable [OF g] have wr: "presets_writable w0 = presets_writable w" .
  show ?thesis
    by (simp add: add_saved_config_def g gi wg wr save_saved_configs_def Let_def)
qed






text \<open>
  Claim C9, as amended. When the presets file cannot be written and the presets
  list is held in memory (it is cached already, or this call loads it from the
  file), \<open>add_saved_config\<close> returns \<open>None\<close>, the file is left as it was, and the
  list that \<open>get_saved_configs\<close> hands out afterwards is the old list followed by
  the preset that was reported as not saved.
\<close>

theorem add_saved_config_keeps_unsaved_preset:
  "\<not> presets_writable w
   \<and> (cached_saved_configs w \<noteq> None
       \<or> (\<exists>f xs. presets_file w = Some f \<and> f_content f = Doc (JList xs)))
   \<longrightarrow> (\<exists>new_id w1.
         add_saved_config w name provider model api_key_env_var = (None, w1)
         \<and> fst (list_presets w1)
             = fst (list_presets w)
               @ [JObj [(''id'', JStr new_id), (''name'', JStr name), (''provider'', JStr provider),
                        (''model'', JStr model), (''apiKeyEnvVar'', JStr api_key_env_var)]]
         \<and> presets_file w1 = presets_file w)"
proof
  assume a: "\<not> presets_writable w
   \<and> (cached_saved_configs w \<noteq> None
       \<or> (\<exists>f xs. presets_file w = Some f \<and> f_content f = Doc (JList xs)))"
  obtain r w0 where g: "get_saved_configs w = (r, w0)" by (cases "get_saved_configs w")
  let ?P = "[(''id'', JStr (fst (generate_id w0))), (''name'', JStr name), (''provider'', JStr provider),
               (''model'', JStr model), (''apiKeyEnvVar'', JStr api_key_env_var)]"
  let ?w1 = "w0\<lparr>rng_pos := rng_pos w0 + 6, store := (store w0)(r := store w0 r @ [JObj ?P])\<rparr>"
  from a get_saved_configs_cases [OF g] have c0: "cached_saved_configs w0 = Some r"
    by auto
  from a add_saved_config_unfold [OF g, of name provider model api_key_env_var]
  have u: "add_saved_config w name provider model api_key_env_var = (None, ?w1)"
    by (simp add: Let_def)
  have c1: "cached_saved_configs ?w1 = Some r" using c0 by simp
  have l1: "fst (list_presets ?w1) = store w0 r @ [JObj ?P]"
    by (simp add: list_presets_def get_saved_configs_cached [OF c1])
  have l0: "fst (list_presets w) = store w0 r"
    by (simp add: list_presets_def g)
  have f: "presets_file ?w1 = presets_file w"
    using get_saved_configs_file [OF g] by simp
  from u l1 l0 f show "\<exists>new_id w1.
         add_saved_config w name provider model api_key_env_var = (None, w1)
         \<and> fst (list_presets w1)
             = fst (list_presets w)
               @ [JObj [(''id'', JStr new_id), (''name'', JStr name), (''provider'', JStr provider),
                        (''model'', JStr model), (''apiKeyEnvVar'', JStr api_key_env_var)]]
         \<and> presets_file w1 = presets_file w"
    by (intro exI [of _ "fst (generate_id w0)"] exI [of _ ?w1]) simp
qed

theorem add_saved_config_keeps_unsaved_preset_witness:
  "\<not> presets_writable (start_world\<lparr>presets_writable := False,
          presets_file := Some \<lparr>f_mtime = 1, f_content = Doc (JList [])\<rparr>\<rparr>)
   \<and> presets_file (start_world\<lparr>presets_writable := False,
          presets_file := Some \<lparr>f_mtime = 1, f_content = Doc (JList [])\<rparr>\<rparr>)
       = Some \<lparr>f_mtime = 1, f_content = Doc (JList [])\<rparr>
   \<and> fst (add_saved_config (start_world\<lparr>presets_writable := False,
          presets_file := Some \<lparr>f_mtime = 1, f_content = Doc (JList [])\<rparr>\<rparr>)
          ''n'' ''openai'' ''gpt-4'' ''OPENAI_API_KEY'') = None
   \<and> map (\<lambda>c. case c of JObj d \<Rightarrow> dict_get d ''name'' | _ \<Rightarrow> JNull)
        (fst (list_presets (snd (add_saved_config (start_world\<lparr>presets_writable := False,
          presets_file := Some \<lparr>f_mtime = 1, f_content = Doc (JList [])\<rparr>\<rparr>)
          ''n'' ''openai'' ''gpt-4'' ''OPENAI_API_KEY''))))
       = [JStr ''n'']"
proof -
  let ?F = "\<lparr>f_mtime = 1, f_content = Doc (JList [])\<rparr>"
  let ?U = "start_world\<lparr>presets_writable := False, presets_file := Some ?F\<rparr>"
  let ?add = "add_saved_config ?U ''n'' ''openai'' ''gpt-4'' ''OPENAI_API_KEY''"
  have h1: "\<not> presets_writable ?U" by simp
  have h2: "presets_file ?U = Some ?F" by simp
  have h3: "f_content ?F = Doc (JList [])" by simp
  have l: "fst (list_presets ?U) = []"
    by (simp add: list_presets_def get_saved_configs_def new_list_def start_world_def)
  from h1 h2 h3 have h: "\<not> presets_writable ?U
   \<and> (cached_saved_configs ?U \<noteq> None
       \<or> (\<exists>f xs. presets_file ?U = Some f \<and> f_content f = Doc (JList xs)))"
    by blast
  from add_saved_config_keeps_unsaved_preset [of ?U "''n''" "''openai''" "''gpt-4''" "''OPENAI_API_KEY''"] h
  obtain new_id w1 where a: "?add = (None, w1)"
    and b: "fst (list_presets w1) = fst (list_presets ?U)
               @ [JObj [(''id'', JStr new_id), (''name'', JStr ''n''), (''provider'', JStr ''openai''),
                        (''model'', JStr ''gpt-4''), (''apiKeyEnvVar'', JStr ''OPENAI_API_KEY'')]]"
    by blast
  from a have p1: "fst ?add = None" and s: "snd ?add = w1" by simp_all
  from b l have p2: "map (\<lambda>c. case c of JObj d \<Rightarrow> dict_get d ''name'' | _ \<Rightarrow> JNull)
        (fst (list_presets (snd ?add))) = [JStr ''n'']"
    by (simp add: s dict_get_def)
  from h1 h2 p1 p2 show ?thesis by blast
qed

text \<open>
  Claim C9 as stated fails when no presets list is in memory: nothing cached, no
  presets file, the file not writable. \<open>add_saved_config\<close> appends to a list that
  only it refers to and returns \<open>None\<close>; the presets listed afterwards are empty.
\<close>

theorem add_saved_config_failure_without_list:
  "fst (add_saved_config (start_world\<lparr>presets_writable := False\<rparr>)
          ''n'' ''openai'' ''gpt-4'' ''OPENAI_API_KEY'') = None
   \<and> fst (list_presets
            (snd (add_saved_config (start_world\<lparr>presets_writable := False\<rparr>)
                    ''n'' ''openai'' ''gpt-4'' ''OPENAI_API_KEY''))) = []"
proof -
  let ?W = "start_world\<lparr>presets_writable := False\<rparr>"
  let ?V = "?W\<lparr>store := (store ?W)(0 := []), next_ref := Suc 0\<rparr>"
  let ?add = "add_saved_config ?W ''n'' ''openai'' ''gpt-4'' ''OPENAI_API_KEY''"
  have g0: "get_saved_configs ?W = (0, ?V)"
    by (simp add: get_saved_configs_def new_list_def start_world_def fun_eq_iff)
  have nw: "\<not> presets_writable ?W" by simp
  from add_saved_config_unfold [OF g0, of "''n''" "''openai''" "''gpt-4''" "''OPENAI_API_KEY''"] nw
  have a: "fst ?add = None"
    and c: "cached_saved_configs (snd ?add) = None"
    and f: "presets_file (snd ?add) = None"
    by (simp_all add: Let_def start_world_def)
  from c f have "fst (list_presets (snd ?add)) = []"
    by (simp add: list_presets_def get_saved_configs_def new_list_def)
  with a show ?thesis by simp
qed

section \<open>Request adapter: gating and validation\<close>

lemma get_config_keeps_calls [simp]: "completion_calls (snd (get_config w)) = completion_calls w"
  using get_config_frame [of w] by (elim exE) simp

lemma get_config_keeps_completion [simp]: "completion (snd (get_config w)) = completion w"
  using get_config_frame [of w] by (elim exE) simp

lemma get_config_keeps_getter [simp]: "config_getter_set (snd (get_config w)) = config_getter_set w"
  using get_config_frame [of w] by (elim exE) simp

lemma logging_flag_state: "snd (logging_flag w flag) = snd (get_config w)"
  by (cases "get_config w")
     (auto simp add: logging_flag_def split: json.splits)

lemma log_error_calls:
  "log_error w e m = (x, w1) \<Longrightarrow> completion_calls w1 = completion_calls w"
proof -
  assume a: "log_error w e m = (x, w1)"
  obtain y w' where l: "logging_flag w ''logErrors'' = (y, w')" by (cases "logging_flag w ''logErrors''")
  with logging_flag_state [of w "''logErrors''"] have "w' = snd (get_config w)" by simp
  then have "completion_calls w' = completion_calls w" by simp
  with a l show ?thesis
    by (auto simp add: log_error_def split: if_splits sum.splits)
qed

text \<open>
  Claim C3. While the emulator is inactive, \<open>handle_chat_completion\<close> returns 503
  with type \<open>service_unavailable\<close> for every request body, valid or not, and leaves
  the whole state as it was: the completion capability is not called.
\<close>

theorem handle_chat_completion_gated_when_inactive:
  "\<not> is_emulator_active w \<longrightarrow>
     handle_chat_completion w request_body
       = (Inr \<lparr>statusCode = 503,
               body = ErrorBody ''Emulator is not active. Start it from the configuration UI.''
                        ''service_unavailable'' JNull\<rparr>, w)
     \<and> completion_calls (snd (handle_chat_completion w request_body)) = completion_calls w"
  by (simp add: handle_chat_completion_def create_error_response_def)

theorem handle_chat_completion_gated_when_inactive_witness:
  "\<not> is_emulator_active start_world
   \<and> validate_request (JObj [(''model'', JStr ''gpt-4''),
        (''messages'', JList [JObj [(''role'', JStr ''user''), (''content'', JStr ''hi'')]])]) = Inr ()
   \<and> handle_chat_completion start_world (JObj [(''model'', JStr ''gpt-4''),
        (''messages'', JList [JObj [(''role'', JStr ''user''), (''content'', JStr ''hi'')]])])
       = (Inr \<lparr>statusCode = 503,
               body = ErrorBody ''Emulator is not active. Start it from the configuration UI.''
                        ''service_unavailable'' JNull\<rparr>, start_world)"
proof -
  have h: "\<not> is_emulator_active start_world"
    by (simp add: is_emulator_active_def start_world_def)
  have v: "validate_request (JObj [(''model'', JStr ''gpt-4''),
        (''messages'', JList [JObj [(''role'', JStr ''user''), (''content'', JStr ''hi'')]])]) = Inr ()"
    by (simp add: validate_request_def dict_get_def strip_is_empty_def is_space_def)
  from h v handle_chat_completion_gated_when_inactive [of start_world] show ?thesis by blast
qed

lemma validate_request_model_missing:
  assumes "map_of b ''model'' = None \<or> (\<exists>s. map_of b ''model'' = Some (JStr s) \<and> strip_is_empty s)"
  shows "validate_request (JObj b)
     = Inl (validation_error (if b = [] then ''Request body is required'' else ''model field is required''))"
proof (cases "b = []")
  case True
  then show ?thesis by (simp add: validate_request_def)
next
  case False
  from assms have "\<not> truthy (dict_get b ''model'') \<or> \<not> is_str (dict_get b ''model'')
      \<or> strip_is_falsy (dict_get b ''model'')"
    by (auto simp add: dict_get_def)
  with False show ?thesis
    by (auto simp add: validate_request_def Let_def)
qed

text \<open>
  Claim C4, as amended. While the emulator is active, a request body that is a
  dict without a \<open>model\<close> key, or whose \<open>model\<close> is an empty or whitespace-only
  string, is answered with 400 and type \<open>invalid_request_error\<close>, and the completion
  capability is not called, provided the error log can read its switch (no
  configuration getter is set, or the configuration and its \<open>logging\<close> entry are
  dicts).
\<close>

theorem handle_chat_completion_rejects_missing_model:
  "is_emulator_active w
   \<and> (map_of b ''model'' = None \<or> (\<exists>s. map_of b ''model'' = Some (JStr s) \<and> strip_is_empty s))
   \<and> (\<not> config_getter_set w \<or> (\<exists>flag. fst (logging_flag w ''logErrors'') = Inr flag))
   \<longrightarrow> (\<exists>msg w1. handle_chat_completion w (JObj b)
            = (Inr \<lparr>statusCode = 400, body = ErrorBody msg ''invalid_request_error'' JNull\<rparr>, w1)
          \<and> completion_calls w1 = completion_calls w)"
proof
  assume a: "is_emulator_active w
   \<and> (map_of b ''model'' = None \<or> (\<exists>s. map_of b ''model'' = Some (JStr s) \<and> strip_is_empty s))
   \<and> (\<not> config_getter_set w \<or> (\<exists>flag. fst (logging_flag w ''logErrors'') = Inr flag))"
  let ?msg = "if b = [] then ''Request body is required'' else ''model field is required''"
  let ?e = "validation_error ?msg"
  from a validate_request_model_missing [of b] have v: "validate_request (JObj b) = Inl ?e" by blast
  then have t: "try_body w (JObj b) = (Inl ?e, w)" by (simp add: try_body_def)
  obtain x w1 where l: "log_error w ?e (dict_get b ''model'') = (x, w1)"
    by (cases "log_error w ?e (dict_get b ''model'')")
  from log_error_calls [OF l] have c: "completion_calls w1 = completion_calls w" .
  from a l have "\<exists>u. x = Inr u"
    by (cases "logging_flag w ''logErrors''")
       (auto simp add: log_error_def split: if_splits sum.splits)
  then obtain u where x: "x = Inr u" ..
  have ne: "?msg \<noteq> []" by simp
  have "handle_chat_completion w (JObj b)
      = (Inr \<lparr>statusCode = 400, body = ErrorBody ?msg ''invalid_request_error'' JNull\<rparr>, w1)"
    using a t l x ne
    by (simp add: handle_chat_completion_def on_exception_def validation_error_def
          create_error_response_def)
  with c show "\<exists>msg w1. handle_chat_completion w (JObj b)
            = (Inr \<lparr>statusCode = 400, body = ErrorBody msg ''invalid_request_error'' JNull\<rparr>, w1)
          \<and> completion_calls w1 = completion_calls w"
    by blast
qed

theorem handle_chat_completion_rejects_missing_model_witness:
  "is_emulator_active (start_world\<lparr>emulator_active := True\<rparr>)
   \<and> map_of [(''messages'', JList [JObj [(''role'', JStr ''user''), (''content'', JStr ''hi'')]])] ''model'' = None
   \<and> fst (logging_flag (start_world\<lparr>emulator_active := True\<rparr>) ''logErrors'') = Inr True
   \<and> map_sum id statusCode
        (fst (handle_chat_completion (start_world\<lparr>emulator_active := True\<rparr>)
               (JObj [(''messages'', JList [JObj [(''role'', JStr ''user''), (''content'', JStr ''hi'')]])])))
       = Inr 400
   \<and> map_of [(''model'', JStr ''   ''), (''prompt'', JStr ''hi'')] ''model'' = Some (JStr ''   '')
   \<and> strip_is_empty ''   ''
   \<and> map_sum id statusCode
        (fst (handle_chat_completion (start_world\<lparr>emulator_active := True\<rparr>)
               (JObj [(''model'', JStr ''   ''), (''prompt'', JStr ''hi'')])))
       = Inr 400"
proof -
  let ?A = "start_world\<lparr>emulator_active := True\<rparr>"
  let ?b1 = "[(''messages'', JList [JObj [(''role'', JStr ''user''), (''content'', JStr ''hi'')]])]"
  let ?b2 = "[(''model'', JStr ''   ''), (''prompt'', JStr ''hi'')]"
  have h1: "is_emulator_active ?A" by (simp add: is_emulator_active_def)
  have h2: "map_of ?b1 ''model'' = None" by simp
  have h3: "fst (logging_flag ?A ''logErrors'') = Inr True"
    by (simp add: logging_flag_def get_config_def start_world_def get_default_config_def
          dict_get_default_def)
  have h4: "map_of ?b2 ''model'' = Some (JStr ''   '')" by simp
  have h5: "strip_is_empty ''   ''" by (simp add: strip_is_empty_def is_space_def)
  from handle_chat_completion_rejects_missing_model [of ?A ?b1] h1 h2 h3
  obtain msg1 w1 where "handle_chat_completion ?A (JObj ?b1)
            = (Inr \<lparr>statusCode = 400, body = ErrorBody msg1 ''invalid_request_error'' JNull\<rparr>, w1)"
    by blast
  then have p1: "map_sum id statusCode (fst (handle_chat_completion ?A (JObj ?b1))) = Inr 400"
    by simp
  from handle_chat_completion_rejects_missing_model [of ?A ?b2] h1 h4 h5 h3
  obtain msg2 w2 where "handle_chat_completion ?A (JObj ?b2)
            = (Inr \<lparr>statusCode = 400, body = ErrorBody msg2 ''invalid_request_error'' JNull\<rparr>, w2)"
    by blast
  then have p2: "map_sum id statusCode (fst (handle_chat_completion ?A (JObj ?b2))) = Inr 400"
    by simp
  from h1 h2 h3 p1 h4 h5 p2 show ?thesis by blast
qed

text \<open>
  Claim C4 as stated fails while the emulator is inactive: the activation check comes
  before the validation, and a request without \<open>model\<close> is answered with 503 and
  type \<open>service_unavailable\<close>.
\<close>

theorem handle_chat_completion_missing_model_while_inactive:
  "fst (handle_chat_completion start_world
         (JObj [(''messages'', JList [JObj [(''role'', JStr ''user''), (''content'', JStr ''hi'')]])]))
   = Inr \<lparr>statusCode = 503,
          body = ErrorBody ''Emulator is not active. Start it from the configuration UI.''
                   ''service_unavailable'' JNull\<rparr>"
  by (simp add: handle_chat_completion_def is_emulator_active_def start_world_def
        create_error_response_def)

section \<open>Request adapter: usage accounting\<close>

lemma set_provider_online_frame:
  "set_provider_online w p f = (x, w1) \<Longrightarrow>
   completion_calls w1 = completion_calls w \<and> (\<forall>e. x = Inl e \<longrightarrow> (\<exists>c m j. e = Error c m j))"
  by (auto simp add: set_provider_online_def unhashable_def split: if_splits)

lemma chat_failed_frame:
  "chat_failed w p e = (x, w1) \<Longrightarrow>
   completion_calls w1 = completion_calls w
   \<and> (\<exists>e'. x = Inl e' \<and> (e' = e \<or> (\<exists>c m j. e' = Error c m j)))"
proof -
  assume a: "chat_failed w p e = (x, w1)"
  obtain y w' where s: "set_provider_online w p False = (y, w')"
    by (cases "set_provider_online w p False")
  from set_provider_online_frame [OF s] a s show ?thesis
    by (cases y) (auto simp add: chat_failed_def)
qed

lemma chat_cases:
  assumes "chat w msgs opts = (x, w1)"
  shows "(\<exists>c m j. x = Inl (Error c m j))
       \<or> (\<exists>q e. completion_calls w1 = completion_calls w @ [q] \<and> completion w q = Inl e \<and> x = Inl e)
       \<or> (\<exists>q resp. completion_calls w1 = completion_calls w @ [q] \<and> completion w q = Inr resp
             \<and> x = Inr \<lparr>cr_text = extract_text resp, cr_usage = extract_usage resp\<rparr>)"
proof -
  let ?provider = "dict_get_default opts ''provider'' (JStr ''openai'')"
  let ?model = "dict_get_default opts ''model'' (JStr ''gpt-4'')"
  let ?k0 = "dict_get opts ''api_key''"
  let ?key = "if truthy ?k0 then Inr ?k0 else env_api_key w ?provider ?k0"
  show ?thesis
  proof (cases ?key)
    case (Inl e)
    then have "\<exists>c m j. e = Error c m j"
      by (auto simp add: env_api_key_def unhashable_def split: if_splits json.splits option.splits)
    with Inl assms show ?thesis by (auto simp add: chat_def Let_def)
  next
    case (Inr k)
    show ?thesis
    proof (cases "truthy k")
      case False
      with Inr assms show ?thesis by (auto simp add: chat_def Let_def)
    next
      case True
      let ?q = "\<lparr>rq_model = get_provider_model_string w ?provider ?model, rq_messages = msgs,
                  rq_api_key = k, rq_temperature = dict_get opts ''temperature'',
                  rq_max_tokens = dict_get opts ''max_tokens''\<rparr>"
      let ?w1 = "w\<lparr>completion_calls := completion_calls w @ [?q]\<rparr>"
      show ?thesis
      proof (cases "completion w ?q")
        case (Inl e)
        with Inr True assms have c: "chat_failed ?w1 ?provider e = (x, w1)"
          by (simp add: chat_def Let_def)
        from chat_failed_frame [OF c] Inl show ?thesis by auto
      next
        case (Inr resp)
        obtain y w2 where s: "set_provider_online ?w1 ?provider True = (y, w2)"
          by (cases "set_provider_online ?w1 ?provider True")
        from set_provider_online_frame [OF s]
        have c2: "completion_calls w2 = completion_calls w @ [?q]"
          and ye: "\<forall>e. y = Inl e \<longrightarrow> (\<exists>c m j. e = Error c m j)" by simp_all
        show ?thesis
        proof (cases y)
          case (Inl e)
          with \<open>?key = Inr k\<close> True Inr s assms have c: "chat_failed w2 ?provider e = (x, w1)"
            by (simp add: chat_def Let_def)
          from chat_failed_frame [OF c] ye Inl show ?thesis by auto
        next
          case (Inr u)
          show ?thesis
          proof (cases "extract_text resp = []")
            case True
            with \<open>?key = Inr k\<close> \<open>truthy k\<close> \<open>completion w ?q = Inr resp\<close> s Inr assms
            have c: "chat_failed w2 ?provider
                   (Error ''ValueError'' ''Backend returned empty response'' JNull) = (x, w1)"
              by (simp add: chat_def Let_def)
            from chat_failed_frame [OF c] show ?thesis by auto
          next
            case False
            with \<open>?key = Inr k\<close> \<open>truthy k\<close> \<open>completion w ?q = Inr resp\<close> s Inr assms
            have "x = Inr \<lparr>cr_text = extract_text resp, cr_usage = extract_usage resp\<rparr>" "w1 = w2"
              by (simp_all add: chat_def Let_def)
            with c2 \<open>completion w ?q = Inr resp\<close> show ?thesis by blast
          qed
        qed
      qed
    qed
  qed
qed

lemma logging_flag_error:
  "logging_flag w flag = (Inl e, w') \<Longrightarrow> \<exists>c m j. e = Error c m j"
  by (cases "get_config w")
     (auto simp add: logging_flag_def attribute_error_def split: json.splits)

lemma logging_flag_frame:
  "logging_flag w flag = (x, w') \<Longrightarrow>
   completion_calls w' = completion_calls w \<and> completion w' = completion w"
  using logging_flag_state [of w flag] by simp

lemma log_request_frame:
  assumes "log_request w = (x, w1)"
  shows "completion_calls w1 = completion_calls w \<and> completion w1 = completion w
       \<and> (\<forall>e. x = Inl e \<longrightarrow> (\<exists>c m j. e = Error c m j))"
proof (cases "config_getter_set w")
  case False
  with assms show ?thesis by (auto simp add: log_request_def)
next
  case True
  obtain y w' where l: "logging_flag w ''logRequests'' = (y, w')"
    by (cases "logging_flag w ''logRequests''")
  from logging_flag_frame [OF l] logging_flag_error [of w "''logRequests''" _ w'] l True assms
  show ?thesis
    by (cases y) (auto simp add: log_request_def)
qed

lemma log_success_frame:
  assumes "log_success w p m u = (x, w1)"
  shows "completion_calls w1 = completion_calls w
       \<and> (\<forall>e. x = Inl e \<longrightarrow> (\<exists>c m j. e = Error c m j))"
proof (cases "config_getter_set w")
  case False
  with assms show ?thesis by (auto simp add: log_success_def)
next
  case True
  obtain y w' where l: "logging_flag w ''enabled'' = (y, w')"
    by (cases "logging_flag w ''enabled''")
  from logging_flag_frame [OF l] logging_flag_error [of w "''enabled''" _ w'] l True assms
  show ?thesis
    by (cases y) (auto simp add: log_success_def split: if_splits)
qed

lemma generate_completion_id_frame:
  "completion_calls (snd (generate_completion_id w)) = completion_calls w"
  by (simp add: generate_completion_id_def random_choices_def split_def Let_def)

lemma message_contents_error:
  "message_contents ms = Inl e \<Longrightarrow> \<exists>c m j. e = Error c m j"
  by (induction ms arbitrary: e)
     (auto simp add: attribute_error_def split: json.splits sum.splits)

lemma str_items_error:
  "str_items i vs = Inl e \<Longrightarrow> \<exists>c m j. e = Error c m j"
  by (induction vs arbitrary: i e)
     (auto split: json.splits sum.splits)

lemma str_items_values:
  "str_items i vs = Inr ss \<Longrightarrow> vs = map JStr ss"
  by (induction vs arbitrary: i ss)
     (auto split: json.splits sum.splits)

lemma compute_usage_error:
  "compute_usage ms res = Inl e \<Longrightarrow> \<exists>c m j. e = Error c m j"
  by (auto simp add: compute_usage_def py_join_def Let_def
        dest: message_contents_error str_items_error split: option.splits sum.splits)

lemma check_messages_error:
  "check_messages ms = Inl e \<Longrightarrow> \<exists>msg. e = validation_error msg"
  by (induction ms) (auto split: json.splits if_splits)

lemma validate_request_error:
  "validate_request rb = Inl e \<Longrightarrow> (\<exists>msg. e = validation_error msg) \<or> (\<exists>c m j. e = Error c m j)"
  by (auto simp add: validate_request_def Let_def attribute_error_def
        dest: check_messages_error split: if_splits json.splits)

lemma validate_request_ok:
  "validate_request rb = Inr u \<Longrightarrow> \<exists>b. rb = JObj b"
  by (auto simp add: validate_request_def split: if_splits json.splits)

lemma try_body_cases:
  assumes t: "try_body w rb = (x, w1)"
  shows "(\<exists>msg. x = Inl (validation_error msg))
       \<or> (\<exists>c m j. x = Inl (Error c m j))
       \<or> (\<exists>q e. completion_calls w1 = completion_calls w @ [q] \<and> completion w q = Inl e \<and> x = Inl e)
       \<or> (\<exists>b q resp u cid created.
             rb = JObj b
           \<and> completion_calls w1 = completion_calls w @ [q] \<and> completion w q = Inr resp
           \<and> compute_usage (input_messages_of b)
                \<lparr>cr_text = extract_text resp, cr_usage = extract_usage resp\<rparr> = Inr u
           \<and> x = Inr \<lparr>statusCode = 200,
                       body = CompletionBody cid ''chat.completion'' created
                                (dict_get_default b ''model'' (JStr []))
                                ''assistant'' (extract_text resp) ''stop'' u\<rparr>)"
proof (cases "validate_request rb")
  case (Inl e)
  with t have "x = Inl e" by (simp add: try_body_def)
  with validate_request_error [OF Inl] show ?thesis by auto
next
  case (Inr ok)
  from validate_request_ok [OF Inr] obtain b where rb: "rb = JObj b" ..
  obtain config wa where g: "get_config w = (config, wa)" by (cases "get_config w")
  then have wa: "completion_calls wa = completion_calls w" "completion wa = completion w"
    using get_config_keeps_calls [of w] get_config_keeps_completion [of w] by simp_all
  show ?thesis
  proof (cases "\<exists>cfg. config = JObj cfg")
    case False
    with t Inr rb g have "x = Inl (attribute_error config ''get'')"
      by (cases config) (simp_all add: try_body_def)
    then show ?thesis by (simp add: attribute_error_def)
  next
    case True
    then obtain cfg where cfg: "config = JObj cfg" ..
    let ?provider = "dict_get_default cfg ''provider'' (JStr ''openai'')"
    let ?model = "dict_get_default cfg ''model'' (JStr ''gpt-4'')"
    obtain y wb where lr: "log_request wa = (y, wb)" by (cases "log_request wa")
    from log_request_frame [OF lr] wa
    have wb: "completion_calls wb = completion_calls w" "completion wb = completion w"
      and ye: "\<forall>e. y = Inl e \<longrightarrow> (\<exists>c m j. e = Error c m j)" by simp_all
    show ?thesis
    proof (cases y)
      case (Inl e)
      with t Inr rb g cfg lr have "x = Inl e" by (simp add: try_body_def)
      with ye Inl show ?thesis by auto
    next
      case (Inr u0)
      obtain z wc where ch: "chat wb (input_messages_of b) (chat_options b ?provider ?model) = (z, wc)"
        by (cases "chat wb (input_messages_of b) (chat_options b ?provider ?model)")
      note cc = chat_cases [OF ch, unfolded wb]
      show ?thesis
      proof (cases z)
        case (Inl e)
        with t \<open>validate_request rb = Inr ok\<close> rb g cfg lr Inr ch
        have "x = Inl e" "w1 = wc" by (simp_all add: try_body_def)
        with cc Inl show ?thesis by auto
      next
        case (Inr result)
        with cc obtain q resp where
          q: "completion_calls wc = completion_calls w @ [q]" "completion w q = Inr resp"
            "result = \<lparr>cr_text = extract_text resp, cr_usage = extract_usage resp\<rparr>"
          by auto
        show ?thesis
        proof (cases "compute_usage (input_messages_of b) result")
          case (Inl e)
          with t \<open>validate_request rb = Inr ok\<close> rb g cfg lr \<open>y = Inr u0\<close> ch Inr
          have "x = Inl e" by (simp add: try_body_def)
          with compute_usage_error [OF Inl] show ?thesis by auto
        next
          case (Inr u)
          obtain v wd where ls: "log_success wc ?provider ?model u = (v, wd)"
            by (cases "log_success wc ?provider ?model u")
          from log_success_frame [OF ls] q
          have wd: "completion_calls wd = completion_calls w @ [q]"
            and ve: "\<forall>e. v = Inl e \<longrightarrow> (\<exists>c m j. e = Error c m j)" by simp_all
          show ?thesis
          proof (cases v)
            case (Inl e)
            with t \<open>validate_request rb = Inr ok\<close> rb g cfg lr \<open>y = Inr u0\<close> ch \<open>z = Inr result\<close> Inr ls
            have "x = Inl e" by (simp add: try_body_def)
            with ve Inl show ?thesis by auto
          next
            case (Inr u1)
            obtain cid we where gc: "generate_completion_id wd = (cid, we)"
              by (cases "generate_completion_id wd")
            with generate_completion_id_frame [of wd] wd
            have we: "completion_calls we = completion_calls w @ [q]" by simp
            from t \<open>validate_request rb = Inr ok\<close> rb g cfg lr \<open>y = Inr u0\<close> ch \<open>z = Inr result\<close>
              \<open>compute_usage (input_messages_of b) result = Inr u\<close> ls Inr gc
            have "x = Inr \<lparr>statusCode = 200,
                       body = CompletionBody cid ''chat.completion'' (clock_ms we div 1000)
                                (dict_get_default b ''model'' (JStr []))
                                ''assistant'' (cr_text result) ''stop'' u\<rparr>" "w1 = we"
              by (auto simp add: try_body_def)
            with we q \<open>compute_usage (input_messages_of b) result = Inr u\<close> rb show ?thesis
              by auto
          qed
        qed
      qed
    qed
  qed
qed

lemma classify_error_not_200: "fst (classify_error e) \<noteq> 200"
  by (simp add: classify_error_def Let_def)

lemma on_exception_cases:
  assumes "on_exception w rb e = (x, w1)"
  shows "completion_calls w1 = completion_calls w
       \<and> (\<forall>r. x = Inr r \<and> statusCode r = 200 \<longrightarrow> (\<exists>msg ty. e = ValidationError msg 200 ty))"
proof (cases rb)
  case (JObj b)
  obtain y w' where l: "log_error w e (dict_get b ''model'') = (y, w')"
    by (cases "log_error w e (dict_get b ''model'')")
  from log_error_calls [OF l] have c: "completion_calls w' = completion_calls w" .
  show ?thesis
  proof (cases y)
    case (Inl e')
    with assms JObj l c show ?thesis by (auto simp add: on_exception_def)
  next
    case (Inr u)
    show ?thesis
    proof (cases e)
      case (ValidationError msg sc ty)
      with assms JObj l c Inr show ?thesis
        by (auto simp add: on_exception_def create_error_response_def)
    next
      case (Error cls msg code)
      with assms JObj l c Inr classify_error_not_200 [of e] show ?thesis
        by (auto simp add: on_exception_def create_error_response_def split: prod.splits)
    qed
  qed
qed (insert assms, auto simp add: on_exception_def)

lemma estimate_tokens_ceil: "estimate_tokens t = (int (length t) + 3) div 4"
  by (simp add: estimate_tokens_def)

lemma length_join_strs:
  "length (join_strs '' '' cs) = sum_list (map length cs) + (length cs - 1)"
  by (induction "'' ''" cs rule: join_strs.induct) simp_all

lemma compute_usage_estimate:
  assumes "compute_usage ms \<lparr>cr_text = text, cr_usage = None\<rparr> = Inr u"
  shows "\<exists>contents. message_contents ms = Inr (map JStr contents)
       \<and> u = \<lparr>prompt_tokens = estimate_tokens (join_strs '' '' contents),
              completion_tokens = estimate_tokens text,
              total_tokens = estimate_tokens (join_strs '' '' contents) + estimate_tokens text\<rparr>"
proof -
  from assms obtain items where i: "message_contents ms = Inr items"
    by (auto simp add: compute_usage_def split: sum.splits)
  with assms obtain ss where ss: "str_items 0 items = Inr ss"
    by (auto simp add: compute_usage_def py_join_def split: sum.splits)
  from str_items_values [OF ss] have "items = map JStr ss" .
  with assms i ss show ?thesis
    by (auto simp add: compute_usage_def py_join_def Let_def)
qed

text \<open>
  Claim C1, as amended. When a request is answered with 200 and the one backend
  result it is built from carries no usage report, the message contents are
  strings and the usage block is estimated from them: \<open>prompt_tokens\<close> is
  \<open>ceil(L / 4)\<close> where \<open>L\<close> is the length of the contents joined by single spaces
  (the lengths summed, plus one for every gap between two messages);
  \<open>completion_tokens\<close> is \<open>ceil(length of the returned text / 4)\<close>; \<open>total_tokens\<close> is
  their sum. For a single message the prompt estimate is the per-message sum of the
  specification.
\<close>

theorem usage_estimate_from_joined_prompt:
  "handle_chat_completion w request_body = (Inr r, w1) \<and> statusCode r = 200
   \<and> completion_calls w1 = completion_calls w @ [q] \<and> completion w q = Inr resp
   \<and> mr_usage resp = None
   \<longrightarrow> (\<exists>b contents.
          request_body = JObj b
        \<and> message_contents (input_messages_of b) = Inr (map JStr contents)
        \<and> cb_content (body r) = extract_text resp
        \<and> prompt_tokens (cb_usage (body r))
            = (int (sum_list (map length contents) + (length contents - 1)) + 3) div 4
        \<and> completion_tokens (cb_usage (body r)) = (int (length (extract_text resp)) + 3) div 4
        \<and> total_tokens (cb_usage (body r))
            = prompt_tokens (cb_usage (body r)) + completion_tokens (cb_usage (body r))
        \<and> (length contents = 1 \<longrightarrow>
              prompt_tokens (cb_usage (body r)) = per_message_estimate contents))"
proof
  assume a: "handle_chat_completion w request_body = (Inr r, w1) \<and> statusCode r = 200
   \<and> completion_calls w1 = completion_calls w @ [q] \<and> completion w q = Inr resp
   \<and> mr_usage resp = None"
  then have h: "handle_chat_completion w request_body = (Inr r, w1)" and s: "statusCode r = 200"
    and cq: "completion_calls w1 = completion_calls w @ [q]" and cr: "completion w q = Inr resp"
    and nu: "mr_usage resp = None" by simp_all
  have act: "is_emulator_active w"
  proof (rule ccontr)
    assume "\<not> is_emulator_active w"
    with h s show False
      by (auto simp add: handle_chat_completion_def create_error_response_def)
  qed
  obtain x wt where t: "try_body w request_body = (x, wt)" by (cases "try_body w request_body")
  have ok: "\<exists>b u cid created.
             request_body = JObj b
           \<and> compute_usage (input_messages_of b)
                \<lparr>cr_text = extract_text resp, cr_usage = extract_usage resp\<rparr> = Inr u
           \<and> r = \<lparr>statusCode = 200,
                  body = CompletionBody cid ''chat.completion'' created
                           (dict_get_default b ''model'' (JStr []))
                           ''assistant'' (extract_text resp) ''stop'' u\<rparr>"
  proof (cases x)
    case (Inl e)
    with h act t have oe: "on_exception wt request_body e = (Inr r, w1)"
      by (simp add: handle_chat_completion_def)
    from on_exception_cases [OF oe] s obtain msg ty where
      c: "completion_calls w1 = completion_calls wt" and e: "e = ValidationError msg 200 ty"
      by auto
    from try_body_cases [OF t] Inl e c cq cr show ?thesis
      by (auto simp add: validation_error_def)
  next
    case (Inr r')
    with h act t have rr: "r' = r" "wt = w1"
      by (auto simp add: handle_chat_completion_def)
    from try_body_cases [OF t] Inr rr cq cr show ?thesis
      by auto
  qed
  then obtain b u cid created where
    rb: "request_body = JObj b"
    and cu: "compute_usage (input_messages_of b)
                \<lparr>cr_text = extract_text resp, cr_usage = extract_usage resp\<rparr> = Inr u"
    and r: "r = \<lparr>statusCode = 200,
                  body = CompletionBody cid ''chat.completion'' created
                           (dict_get_default b ''model'' (JStr []))
                           ''assistant'' (extract_text resp) ''stop'' u\<rparr>"
    by blast
  from nu have "extract_usage resp = None" by (simp add: extract_usage_def)
  with cu compute_usage_estimate [of "input_messages_of b" "extract_text resp" u]
  obtain contents where mc: "message_contents (input_messages_of b) = Inr (map JStr contents)"
    and u: "u = \<lparr>prompt_tokens = estimate_tokens (join_strs '' '' contents),
              completion_tokens = estimate_tokens (extract_text resp),
              total_tokens = estimate_tokens (join_strs '' '' contents)
                             + estimate_tokens (extract_text resp)\<rparr>"
    by auto
  have p: "prompt_tokens (cb_usage (body r))
      = (int (sum_list (map length contents) + (length contents - 1)) + 3) div 4"
    by (simp add: r u estimate_tokens_ceil length_join_strs)
  have one: "length contents = 1 \<longrightarrow> prompt_tokens (cb_usage (body r)) = per_message_estimate contents"
  proof
    assume "length contents = 1"
    then obtain c where "contents = [c]" by (cases contents) auto
    then show "prompt_tokens (cb_usage (body r)) = per_message_estimate contents"
      by (simp add: r u estimate_tokens_ceil per_message_estimate_def)
  qed
  have rest: "cb_content (body r) = extract_text resp"
    "completion_tokens (cb_usage (body r)) = (int (length (extract_text resp)) + 3) div 4"
    "total_tokens (cb_usage (body r))
            = prompt_tokens (cb_usage (body r)) + completion_tokens (cb_usage (body r))"
    by (simp_all add: r u estimate_tokens_ceil)
  from rb mc p one rest show "\<exists>b contents.
          request_body = JObj b
        \<and> message_contents (input_messages_of b) = Inr (map JStr contents)
        \<and> cb_content (body r) = extract_text resp
        \<and> prompt_tokens (cb_usage (body r))
            = (int (sum_list (map length contents) + (length contents - 1)) + 3) div 4
        \<and> completion_tokens (cb_usage (body r)) = (int (length (extract_text resp)) + 3) div 4
        \<and> total_tokens (cb_usage (body r))
            = prompt_tokens (cb_usage (body r)) + completion_tokens (cb_usage (body r))
        \<and> (length contents = 1 \<longrightarrow>
              prompt_tokens (cb_usage (body r)) = per_message_estimate contents)"
    by blast
qed

lemmas adapter_eval =
  handle_chat_completion_def is_emulator_active_def try_body_def validate_request_def
  dict_get_def dict_get_default_def strip_is_empty_def is_space_def get_config_def start_world_def
  get_default_config_def log_request_def logging_flag_def chat_def input_messages_of_def
  chat_options_def py_or_def dict_set_def env_api_key_def SUPPORTED_PROVIDERS_def
  get_provider_model_string_def set_provider_online_def extract_text_def extract_usage_def
  compute_usage_def py_join_def estimate_tokens_def log_success_def generate_completion_id_def
  random_choices_def ascii_lowercase_digits_def show_nat_example upt_examples Let_def split_def

theorem usage_estimate_from_joined_prompt_witness:
  "fst (handle_chat_completion (start_world\<lparr>emulator_active := True\<rparr>)
         (JObj [(''model'', JStr ''gpt-4''),
                (''messages'', JList [JObj [(''role'', JStr ''user''), (''content'', JStr ''hello'')]])]))
     = Inr \<lparr>statusCode = 200,
            body = CompletionBody ''chatcmpl-1700000000123-abcdefg'' ''chat.completion'' 1700000000
                     (JStr ''gpt-4'') ''assistant'' ''ok'' ''stop''
                     \<lparr>prompt_tokens = 2, completion_tokens = 1, total_tokens = 3\<rparr>\<rparr>
   \<and> completion_calls (snd (handle_chat_completion (start_world\<lparr>emulator_active := True\<rparr>)
         (JObj [(''model'', JStr ''gpt-4''),
                (''messages'', JList [JObj [(''role'', JStr ''user''), (''content'', JStr ''hello'')]])])))
     = completion_calls (start_world\<lparr>emulator_active := True\<rparr>)
       @ [\<lparr>rq_model = JStr ''gpt-4'',
           rq_messages = [JObj [(''role'', JStr ''user''), (''content'', JStr ''hello'')]],
           rq_api_key = JStr ''sk-test'', rq_temperature = JNull, rq_max_tokens = JNull\<rparr>]
   \<and> completion (start_world\<lparr>emulator_active := True\<rparr>)
        \<lparr>rq_model = JStr ''gpt-4'',
         rq_messages = [JObj [(''role'', JStr ''user''), (''content'', JStr ''hello'')]],
         rq_api_key = JStr ''sk-test'', rq_temperature = JNull, rq_max_tokens = JNull\<rparr>
     = Inr \<lparr>mr_choices = [Some (Some ''ok'')], mr_usage = None\<rparr>
   \<and> per_message_estimate [''hello''] = 2"
proof -
  let ?A = "start_world\<lparr>emulator_active := True\<rparr>"
  let ?B = "JObj [(''model'', JStr ''gpt-4''),
                (''messages'', JList [JObj [(''role'', JStr ''user''), (''content'', JStr ''hello'')]])]"
  let ?R = "\<lparr>statusCode = 200,
            body = CompletionBody ''chatcmpl-1700000000123-abcdefg'' ''chat.completion'' 1700000000
                     (JStr ''gpt-4'') ''assistant'' ''ok'' ''stop''
                     \<lparr>prompt_tokens = 2, completion_tokens = 1, total_tokens = 3\<rparr>\<rparr>"
  let ?Q = "\<lparr>rq_model = JStr ''gpt-4'',
           rq_messages = [JObj [(''role'', JStr ''user''), (''content'', JStr ''hello'')]],
           rq_api_key = JStr ''sk-test'', rq_temperature = JNull, rq_max_tokens = JNull\<rparr>"
  let ?resp = "\<lparr>mr_choices = [Some (Some ''ok'')], mr_usage = None\<rparr>"
  have f: "fst (handle_chat_completion ?A ?B) = Inr ?R"
    by (simp add: adapter_eval)
  then have h1: "handle_chat_completion ?A ?B = (Inr ?R, snd (handle_chat_completion ?A ?B))"
    by (cases "handle_chat_completion ?A ?B") simp
  have h2: "statusCode ?R = 200" by simp
  have h3: "completion_calls (snd (handle_chat_completion ?A ?B)) = completion_calls ?A @ [?Q]"
    by (simp add: adapter_eval)
  have h4: "completion ?A ?Q = Inr ?resp" by (simp add: start_world_def)
  have h5: "mr_usage ?resp = None" by simp
  from usage_estimate_from_joined_prompt
         [of ?A ?B ?R "snd (handle_chat_completion ?A ?B)" ?Q ?resp] h1 h2 h3 h4 h5
  obtain b contents where b: "?B = JObj b"
    and mc: "message_contents (input_messages_of b) = Inr (map JStr contents)"
    and one: "length contents = 1 \<longrightarrow> prompt_tokens (cb_usage (body ?R)) = per_message_estimate contents"
    by blast
  from b mc have "map JStr contents = [JStr ''hello'']"
    by (auto simp add: input_messages_of_def dict_get_def dict_get_default_def)
  then have "contents = [''hello'']" by auto
  with one have p: "per_message_estimate [''hello''] = 2" by simp
  from f h3 h4 p show ?thesis by blast
qed

text \<open>
  Claim C1 as stated fails for two messages: with contents "a" and "b" and a
  backend answer "ok" without usage, the 200 response reports \<open>prompt_tokens = 1\<close>,
  the estimate of the joined text "a b", where the per-message sum is 2.
\<close>

theorem usage_estimate_two_messages:
  "fst (handle_chat_completion (start_world\<lparr>emulator_active := True\<rparr>)
         (JObj [(''model'', JStr ''gpt-4''),
                (''messages'', JList [JObj [(''role'', JStr ''user''), (''content'', JStr ''a'')],
                                      JObj [(''role'', JStr ''user''), (''content'', JStr ''b'')]])]))
     = Inr \<lparr>statusCode = 200,
            body = CompletionBody ''chatcmpl-1700000000123-abcdefg'' ''chat.completion'' 1700000000
                     (JStr ''gpt-4'') ''assistant'' ''ok'' ''stop''
                     \<lparr>prompt_tokens = 1, completion_tokens = 1, total_tokens = 2\<rparr>\<rparr>
   \<and> per_message_estimate [''a'', ''b''] = 2"
  by (simp add: adapter_eval per_message_estimate_def)

end
